theory Spec2Isabelle
  imports Complex_Main "HOL-Library.Log_Nat" "HOL-Library.Multiset"
begin

section \<open>JavaScript numbers\<close>

text \<open>
  A JavaScript Number is an IEEE-754 binary64 value. The pages below only divide, multiply
  and subtract finite values far from the exponent limits, so a Number is modelled as the
  rational it denotes, and every arithmetic operation rounds its exact result to the
  nearest value with a 53-bit significand, ties to even (\<open>fl\<close>). The exponent range is
  left unbounded: overflow, subnormals, NaN and infinities are outside the model.
\<close>

definition pow2 :: "int \<Rightarrow> rat" where
  "pow2 e = (if 0 \<le> e then 2 ^ nat e else 1 / 2 ^ nat (- e))"

text \<open>Round to the nearest integer, ties to the even one.\<close>

definition rne :: "rat \<Rightarrow> int" where
  "rne q = (let f = \<lfloor>q\<rfloor>; r = q - of_int f in
     if r < 1 / 2 then f else if 1 / 2 < r then f + 1 else if even f then f else f + 1)"

text \<open>For \<open>x > 0\<close>, the exponent \<open>e\<close> with \<open>2^52 \<le> x / 2^e < 2^53\<close>.\<close>

definition expo :: "rat \<Rightarrow> int" where
  "expo x = (case quotient_of x of (n, d) \<Rightarrow>
     let e0 = bitlen n - bitlen d - 53 in if x / pow2 e0 < 2 ^ 53 then e0 else e0 + 1)"

definition fl :: "rat \<Rightarrow> rat" where
  "fl x = (if x = 0 then 0 else
     let e = expo \<bar>x\<bar> in sgn x * of_int (rne (\<bar>x\<bar> / pow2 e)) * pow2 e)"

definition jdiv :: "rat \<Rightarrow> rat \<Rightarrow> rat" where
  "jdiv a b = fl (a / b)"

definition jmul :: "rat \<Rightarrow> rat \<Rightarrow> rat" where
  "jmul a b = fl (a * b)"

definition jsub :: "rat \<Rightarrow> rat \<Rightarrow> rat" where
  "jsub a b = fl (a - b)"

text \<open>\<open>Math.round\<close>: the nearest integer, a tie going up. It is exact on a Number.\<close>

definition Math_round :: "rat \<Rightarrow> int" where
  "Math_round x = \<lfloor>x + 1 / 2\<rfloor>"

definition Math_max :: "rat \<Rightarrow> rat \<Rightarrow> rat" where
  "Math_max a b = (if a < b then b else a)"

text \<open>A failed request: the rejection of an \<open>api.get\<close>/\<open>api.post\<close> promise, with the
  \<open>detail\<close> of the response when there is one.\<close>

datatype api_error = ApiError "string option"


section \<open>NodosRedPage.jsx\<close>

subsection \<open>Helpers\<close>

text \<open>\<open>const calcPct = (used, total) => total > 0 ? Math.round((used / total) * 100) : 0;\<close>\<close>

definition calcPct :: "rat \<Rightarrow> rat \<Rightarrow> int" where
  "calcPct used tot = (if 0 < tot then Math_round (jmul (jdiv used tot) 100) else 0)"

subsection \<open>Plain objects used as dictionaries\<close>

text \<open>
  \<open>newData\<close> and \<open>newRates\<close> are plain objects (\<open>{}\<close>) indexed by the interface name.
  Such an object has its own properties and a prototype. An assignment \<open>obj[k] = v\<close>
  creates or overwrites the own property \<open>k\<close>, except for \<open>k = "__proto__"\<close>: that name
  is an accessor of \<open>Object.prototype\<close>, and assigning an object to it replaces the
  prototype and creates no property. \<open>Object.keys\<close> lists the own properties only,
  while a read \<open>obj[k]\<close> also finds what the prototype chain provides.
  \<open>proto = None\<close> stands for the initial prototype, \<open>Object.prototype\<close>.
\<close>

record 'v plain_object =
  own :: "string \<rightharpoonup> 'v"
  proto :: "'v option"

definition empty_object :: "'v plain_object" where
  "empty_object = \<lparr>own = Map.empty, proto = None\<rparr>"

definition assign :: "string \<Rightarrow> 'v \<Rightarrow> 'v plain_object \<Rightarrow> 'v plain_object" where
  "assign k v obj =
     (if k = ''__proto__'' then obj\<lparr>proto := Some v\<rparr> else obj\<lparr>own := (own obj)(k \<mapsto> v)\<rparr>)"

text \<open>The property names of \<open>Object.prototype\<close>, which every plain object inherits.\<close>

definition object_prototype_names :: "string list" where
  "object_prototype_names =
     [''constructor'', ''__defineGetter__'', ''__defineSetter__'', ''hasOwnProperty'',
      ''__lookupGetter__'', ''__lookupSetter__'', ''isPrototypeOf'', ''propertyIsEnumerable'',
      ''toString'', ''valueOf'', ''__proto__'', ''toLocaleString'']"

subsection \<open>TrafficMonitor\<close>

text \<open>One element of \<open>res.data.interfaces\<close> in the reply of \<open>/mikrotik/traffic-snapshot\<close>.
  The byte counters are the integers of the reply.\<close>

record iface_counters =
  name :: string
  tx_byte :: int
  rx_byte :: int
  running :: bool

text \<open>The Number that the parsed reply holds for an integer: the nearest binary64 value.\<close>

definition Number_of_int :: "int \<Rightarrow> rat" where
  "Number_of_int i = fl (of_int i)"

text \<open>A Number that may be \<open>NaN\<close>, as the result of arithmetic on \<open>undefined\<close> is.\<close>

datatype jsnum = Num rat | NaN

text \<open>The value stored per interface name in \<open>newData\<close>: \<open>{ tx, rx, running }\<close>.\<close>

record sample =
  tx :: rat
  rx :: rat
  s_running :: bool

text \<open>The value stored per interface name in \<open>newRates\<close>: \<open>{ txBps, rxBps, running }\<close>.\<close>

record rate =
  txBps :: jsnum
  rxBps :: jsnum
  r_running :: bool

text \<open>What a read \<open>prevRef.current[name]\<close> can yield: a stored sample; a number or a
  boolean, when the prototype is a sample and the name is one of its properties; some
  other object (a function of \<open>Object.prototype\<close>, or \<open>Object.prototype\<close> itself for
  \<open>"__proto__"\<close>); or \<open>undefined\<close>.\<close>

datatype pval = PSample sample | PNumber rat | PBoolean bool | PObject | PUndefined

definition object_prototype_get :: "string \<Rightarrow> pval" where
  "object_prototype_get k = (if k \<in> set object_prototype_names then PObject else PUndefined)"

definition get_sample :: "sample plain_object \<Rightarrow> string \<Rightarrow> pval" where
  "get_sample obj k =
     (case own obj k of
        Some s \<Rightarrow> PSample s
      | None \<Rightarrow>
          (case proto obj of
             None \<Rightarrow> object_prototype_get k
           | Some s \<Rightarrow>
               if k = ''__proto__'' then PSample s
               else if k = ''tx'' then PNumber (tx s)
               else if k = ''rx'' then PNumber (rx s)
               else if k = ''running'' then PBoolean (s_running s)
               else object_prototype_get k))"

text \<open>The names whose read finds something in the prototype chain of a snapshot object.\<close>

definition inherited :: "sample plain_object \<Rightarrow> string list" where
  "inherited obj =
     object_prototype_names @ (case proto obj of None \<Rightarrow> [] | Some s \<Rightarrow> [''tx'', ''rx'', ''running''])"

text \<open>The test \<open>if (p)\<close>.\<close>

definition truthy :: "pval \<Rightarrow> bool" where
  "truthy p =
     (case p of PSample s \<Rightarrow> True | PNumber x \<Rightarrow> x \<noteq> 0 | PBoolean b \<Rightarrow> b
      | PObject \<Rightarrow> True | PUndefined \<Rightarrow> False)"

text \<open>\<open>p.tx\<close> and \<open>p.rx\<close> as operands of a subtraction: the stored number for a sample,
  \<open>NaN\<close> for anything else, whose \<open>tx\<close> and \<open>rx\<close> are \<open>undefined\<close>.\<close>

definition prop_tx :: "pval \<Rightarrow> jsnum" where
  "prop_tx p = (case p of PSample s \<Rightarrow> Num (tx s) | _ \<Rightarrow> NaN)"

definition prop_rx :: "pval \<Rightarrow> jsnum" where
  "prop_rx p = (case p of PSample s \<Rightarrow> Num (rx s) | _ \<Rightarrow> NaN)"

text \<open>\<open>Math.max(0, (curr - prev) / dt)\<close>, where \<open>NaN\<close> propagates through the
  subtraction, the division and \<open>Math.max\<close>.\<close>

definition rate_of :: "rat \<Rightarrow> rat \<Rightarrow> jsnum \<Rightarrow> jsnum" where
  "rate_of dt cur prev =
     (case prev of NaN \<Rightarrow> NaN | Num pv \<Rightarrow> Num (Math_max 0 (jdiv (jsub cur pv) dt)))"

text \<open>The component's state: the \<open>traffic\<close> and \<open>rates\<close> state variables, and the refs
  \<open>prevRef\<close> and \<open>prevTimeRef\<close> (\<open>None\<close> is the initial \<open>null\<close>). \<open>rates\<close> holds the
  own properties of \<open>newRates\<close>, whose prototype is always \<open>Object.prototype\<close>: it is
  only assigned at the keys of \<open>newData\<close>, and \<open>"__proto__"\<close> is never one. A time is the
  integral Number of milliseconds that \<open>Date.now()\<close> returns.\<close>

record traffic_state =
  traffic :: "sample plain_object"
  rates :: "string \<rightharpoonup> rate"
  prevRef :: "sample plain_object"
  prevTimeRef :: "int option"

definition traffic_init :: traffic_state where
  "traffic_init = \<lparr>traffic = empty_object, rates = Map.empty, prevRef = empty_object,
     prevTimeRef = None\<rparr>"

text \<open>The \<open>forEach\<close> that fills \<open>newData\<close>, one assignment per interface of the reply.\<close>

definition mkNewData :: "iface_counters list \<Rightarrow> sample plain_object" where
  "mkNewData ifaces =
     fold (\<lambda>iface obj. assign (name iface)
        \<lparr>tx = Number_of_int (tx_byte iface), rx = Number_of_int (rx_byte iface),
         s_running = running iface\<rparr> obj) ifaces empty_object"

text \<open>The rate entry written for one name when \<open>p = prevRef.current[name]\<close> is truthy.\<close>

definition mkRate :: "rat \<Rightarrow> pval \<Rightarrow> sample \<Rightarrow> rate" where
  "mkRate dt p n =
     \<lparr>txBps = rate_of dt (tx n) (prop_tx p),
      rxBps = rate_of dt (rx n) (prop_rx p),
      r_running = s_running n\<rparr>"

text \<open>\<open>newRates\<close>: empty unless \<open>prevTimeRef.current\<close> is truthy (not \<open>null\<close>, not \<open>0\<close>)
  and \<open>now - prevTimeRef.current > 0\<close>; then one entry for every key of \<open>newData\<close> for
  which the read of \<open>prevRef.current\<close> is truthy.\<close>

definition mkNewRates ::
  "int option \<Rightarrow> sample plain_object \<Rightarrow> int \<Rightarrow> sample plain_object \<Rightarrow> (string \<rightharpoonup> rate)" where
  "mkNewRates prevTime prev now newData =
     (case prevTime of
        None \<Rightarrow> Map.empty
      | Some t0 \<Rightarrow>
          if t0 \<noteq> 0 \<and> 0 < jsub (of_int now) (of_int t0) then
            (let dt = jdiv (jsub (of_int now) (of_int t0)) 1000 in
             (\<lambda>nm. case own newData nm of
                      None \<Rightarrow> None
                    | Some n \<Rightarrow>
                        (let p = get_sample prev nm in
                         if truthy p then Some (mkRate dt p n) else None)))
          else Map.empty)"

text \<open>One poll. \<open>res\<close> is the outcome of the request and \<open>now\<close> the value of
  \<open>Date.now()\<close> after it. A failed request is caught and changes nothing.\<close>

definition fetchTraffic ::
  "traffic_state \<Rightarrow> api_error + iface_counters list \<Rightarrow> int \<Rightarrow> traffic_state" where
  "fetchTraffic st res now =
     (case res of
        Inl err \<Rightarrow> st
      | Inr ifaces \<Rightarrow>
          (let newData = mkNewData ifaces;
               newRates = mkNewRates (prevTimeRef st) (prevRef st) now newData
           in \<lparr>traffic = newData, rates = newRates, prevRef = newData,
                prevTimeRef = Some now\<rparr>))"

text \<open>What the read \<open>rates[name]\<close> yields in the render: the entry, an object inherited
  from \<open>Object.prototype\<close>, or \<open>undefined\<close>.\<close>

datatype rval = RRate rate | RObject | RUndefined

definition get_rate :: "(string \<rightharpoonup> rate) \<Rightarrow> string \<Rightarrow> rval" where
  "get_rate rs k =
     (case rs k of
        Some r \<Rightarrow> RRate r
      | None \<Rightarrow> if k \<in> set object_prototype_names then RObject else RUndefined)"

text \<open>What a row of the monitor shows. There is one row per key of \<open>traffic\<close>. With
  \<open>r = rates[name]\<close>, the row shows the text "Calculando..." when \<open>r\<close> is falsy, and
  otherwise \<open>formatMbps(r.txBps)\<close> and \<open>formatMbps(r.rxBps)\<close>, where the argument is
  \<open>undefined\<close> (\<open>None\<close>) when \<open>r\<close> is not a rate entry.\<close>

datatype row_view = Calculando | ShowRates "jsnum option" "jsnum option"

definition traffic_row :: "traffic_state \<Rightarrow> string \<Rightarrow> row_view option" where
  "traffic_row st nm =
     (case own (traffic st) nm of
        None \<Rightarrow> None
      | Some s \<Rightarrow>
          (case get_rate (rates st) nm of
             RRate r \<Rightarrow> Some (ShowRates (Some (txBps r)) (Some (rxBps r)))
           | RObject \<Rightarrow> Some (ShowRates None None)
           | RUndefined \<Rightarrow> Some Calculando))"

text \<open>\<open>formatMbps\<close> returns "0 Mbps" exactly when \<open>!bps || bps <= 0\<close>.\<close>

definition formatMbps_zero :: "jsnum option \<Rightarrow> bool" where
  "formatMbps_zero bps =
     (case bps of None \<Rightarrow> True | Some NaN \<Rightarrow> True | Some (Num x) \<Rightarrow> x \<le> 0)"

subsection \<open>InterfaceIpBlock and InterfacesPanel\<close>

text \<open>One address of a pool report (\<open>firstPool.ips\<close>).\<close>

record address_slot =
  ip :: string
  occupied :: bool
  client_name :: string
  status :: string

text \<open>One element of \<open>poolIface.cidrs\<close>.\<close>

record cidr_pool =
  cidr :: string
  p_total :: nat
  p_occupied :: nat
  p_free :: nat
  pct_used :: nat
  ips :: "address_slot list"

text \<open>One element of \<open>poolData.interfaces\<close>.\<close>

record pool_iface =
  pi_name :: string
  has_pool :: bool
  cidrs :: "cidr_pool list"

text \<open>One element of \<open>sysInfo.interfaces\<close>; \<open>si_ips\<close> holds the \<open>address\<close> of each
  entry of \<open>iface.ips\<close>.\<close>

record sys_iface =
  si_name :: string
  si_ips :: "string list"

record sys_info =
  identity :: string
  si_interfaces :: "sys_iface list"

text \<open>\<open>hasPool = poolIface?.has_pool && poolIface?.cidrs?.length > 0\<close>; an absent
  \<open>poolIface\<close> (\<open>undefined\<close>) is \<open>None\<close>.\<close>

definition hasPool :: "pool_iface option \<Rightarrow> bool" where
  "hasPool poolIface =
     (case poolIface of None \<Rightarrow> False | Some p \<Rightarrow> has_pool p \<and> 0 < length (cidrs p))"

definition firstPool :: "pool_iface option \<Rightarrow> cidr_pool option" where
  "firstPool poolIface =
     (if hasPool poolIface then
        (case poolIface of None \<Rightarrow> None
         | Some p \<Rightarrow> (case cidrs p of [] \<Rightarrow> None | c # cs \<Rightarrow> Some c))
      else None)"

definition allIps :: "pool_iface option \<Rightarrow> address_slot list" where
  "allIps poolIface = (case firstPool poolIface of None \<Rightarrow> [] | Some c \<Rightarrow> ips c)"

text \<open>The filter callback of \<open>filteredIps\<close>; \<open>filterOccupied\<close> is the state variable,
  one of \<open>"all"\<close>, \<open>"occupied"\<close>, \<open>"free"\<close>.\<close>

definition keepIp :: "string \<Rightarrow> address_slot \<Rightarrow> bool" where
  "keepIp filterOccupied slot =
     (if filterOccupied = ''occupied'' then occupied slot
      else if filterOccupied = ''free'' then \<not> occupied slot
      else True)"

definition filteredIps :: "string \<Rightarrow> address_slot list \<Rightarrow> address_slot list" where
  "filteredIps filterOccupied all_ips = filter (keepIp filterOccupied) all_ips"

definition visibleIps :: "bool \<Rightarrow> address_slot list \<Rightarrow> address_slot list" where
  "visibleIps showAll filtered = (if showAll then filtered else take 20 filtered)"

text \<open>\<open>poolMap\<close> of InterfacesPanel: \<open>(poolData?.interfaces || []).forEach(p => { poolMap[p.name] = p; })\<close>.
  \<open>poolData\<close> is \<open>None\<close> while it is \<open>null\<close>. The block only uses the \<open>has_pool\<close> and
  \<open>cidrs\<close> of what it reads from \<open>poolMap\<close>, so a read that finds no pool interface is
  \<open>None\<close>, whatever else the read may find.\<close>

definition poolMap :: "pool_iface list option \<Rightarrow> (string \<rightharpoonup> pool_iface)" where
  "poolMap poolData =
     fold (\<lambda>p m. m(pi_name p \<mapsto> p)) (case poolData of None \<Rightarrow> [] | Some d \<Rightarrow> d) Map.empty"

definition withIp :: "sys_iface list \<Rightarrow> sys_iface list" where
  "withIp interfaces = filter (\<lambda>i. 0 < length (si_ips i)) interfaces"

text \<open>The \<open>InterfaceIpBlock\<close>s rendered by the panel: each interface with an address,
  paired with the \<open>poolIface\<close> prop it receives.\<close>

definition ipBlocks :: "sys_iface list \<Rightarrow> pool_iface list option \<Rightarrow> (sys_iface \<times> pool_iface option) list" where
  "ipBlocks interfaces poolData =
     map (\<lambda>iface. (iface, poolMap poolData (si_name iface))) (withIp interfaces)"

subsection \<open>NodosRedPage\<close>

record mk_creds =
  host :: string
  username :: string
  password :: string
  port :: int
  use_ssl :: bool

datatype toast = ToastError string | ToastSuccess string

text \<open>The state variables of the page, with the toasts shown so far and the
  \<open>netkeeper_mk_interfaces\<close> item of local storage.\<close>

record page_state =
  creds :: "mk_creds option"
  connecting :: bool
  sysInfo :: "sys_info option"
  poolData :: "pool_iface list option"
  loadingPool :: bool
  toasts :: "toast list"
  stored :: "(string \<times> sys_iface list) option"

definition page_init :: page_state where
  "page_init = \<lparr>creds = None, connecting = False, sysInfo = None, poolData = None,
     loadingPool = False, toasts = [], stored = None\<rparr>"

definition error_text :: "api_error \<Rightarrow> string \<Rightarrow> string" where
  "error_text err dflt = (case err of ApiError None \<Rightarrow> dflt | ApiError (Some d) \<Rightarrow> if d = [] then dflt else d)"

text \<open>\<open>handleConnect\<close> up to the point where the pool request has been sent: \<open>res\<close> is the
  outcome of \<open>/mikrotik/system-info\<close>. The second component tells whether the request
  \<open>/mikrotik/ip-pool-live\<close> was issued.\<close>

definition handleConnect :: "mk_creds \<Rightarrow> api_error + sys_info \<Rightarrow> page_state \<Rightarrow> page_state \<times> bool" where
  "handleConnect formCreds res st =
     (case res of
        Inl err \<Rightarrow>
          (st\<lparr>toasts := toasts st @ [ToastError (error_text err ''No se pudo conectar al MikroTik'')],
              connecting := False\<rparr>, False)
      | Inr info \<Rightarrow>
          (st\<lparr>sysInfo := Some info, creds := Some formCreds,
              toasts := toasts st @
                [ToastSuccess (''Conectado a '' @ (if identity info = [] then host formCreds else identity info))],
              stored := Some (host formCreds, si_interfaces info),
              loadingPool := True, connecting := False\<rparr>, True))"

text \<open>The callbacks of the pool request: \<open>.then(r => setPoolData(r.data))\<close>,
  \<open>.catch(() => {})\<close>, \<open>.finally(() => setLoadingPool(false))\<close>.\<close>

definition poolSettled :: "api_error + pool_iface list \<Rightarrow> page_state \<Rightarrow> page_state" where
  "poolSettled r st =
     (case r of
        Inr d \<Rightarrow> st\<lparr>poolData := Some d, loadingPool := False\<rparr>
      | Inl err \<Rightarrow> st\<lparr>loadingPool := False\<rparr>)"

definition handleDisconnect :: "page_state \<Rightarrow> page_state" where
  "handleDisconnect st = st\<lparr>creds := None, sysInfo := None, poolData := None, stored := None\<rparr>"

text \<open>What the MikroTik tab renders: the connect form while \<open>sysInfo\<close> is \<open>null\<close>;
  otherwise the system card, the traffic monitor with its \<open>creds\<close> prop and the
  interfaces panel with its blocks and the \<open>loadingPool\<close> spinner flag.\<close>

datatype tab_view =
  ConnectFormView bool
| ConnectedView sys_info "mk_creds option" "(sys_iface \<times> pool_iface option) list" bool

definition mikrotik_tab :: "page_state \<Rightarrow> tab_view" where
  "mikrotik_tab st =
     (case sysInfo st of
        None \<Rightarrow> ConnectFormView (connecting st)
      | Some info \<Rightarrow>
          ConnectedView info (creds st) (ipBlocks (si_interfaces info) (poolData st)) (loadingPool st))"


section \<open>DashboardPage.jsx: CreateConnectionModal\<close>

text \<open>
  The entities the modal receives from the API. An id is a number in the reply and the
  string of that number as the value of a select; a form field bound to such a select is
  modelled as \<open>int option\<close>, \<open>None\<close> being the empty string of the placeholder option
  (the only falsy value such a field takes). Free-text fields are strings, falsy when
  empty. Toast texts are written without their accents and emoji.
\<close>

record cell =
  cell_ident :: int
  cell_name :: string
  cell_type :: string

record olt_zone =
  zone_ident :: int
  zone_name :: string

record nap =
  nap_ident :: int
  nap_name :: string
  total_ports :: int
  free_ports :: int

record nap_port =
  port_ident :: int
  port_number :: int
  is_occupied :: bool

record conn_form =
  client_id :: "int option"
  cell_id :: "int option"
  plan_id :: "int option"
  olt_zone_id :: "int option"
  nap_id :: "int option"
  nap_port_id :: "int option"
  ip_address :: string
  pppoe_profile :: string
  pppoe_username :: string
  pppoe_password_encrypted :: string
  onu_id :: "int option"
  mode :: string
  cpe_id :: "int option"
  router_id :: "int option"
  ip_additional :: string

definition form_init :: "int option \<Rightarrow> conn_form" where
  "form_init preClientId =
     \<lparr>client_id = preClientId, cell_id = None, plan_id = None, olt_zone_id = None,
      nap_id = None, nap_port_id = None, ip_address = [], pppoe_profile = ''default-encryption'',
      pppoe_username = [], pppoe_password_encrypted = [], onu_id = None, mode = ''router'',
      cpe_id = None, router_id = None, ip_additional = []\<rparr>"

text \<open>The state variables of the modal. Plans, ONUs and CPEs are kept as their ids.\<close>

record modal_state =
  form :: conn_form
  cells :: "cell list"
  plans :: "int list"
  onus :: "int list"
  cpes :: "int list"
  ipPool :: "string list"
  zones :: "olt_zone list"
  naps :: "nap list"
  ports :: "nap_port list"
  selectedCell :: "cell option"
  saving :: bool
  m_toasts :: "toast list"

text \<open>The modal once the initial load has filled \<open>cells\<close>.\<close>

definition modal_init :: "int option \<Rightarrow> cell list \<Rightarrow> modal_state" where
  "modal_init preClientId cs =
     \<lparr>form = form_init preClientId, cells = cs, plans = [], onus = [], cpes = [], ipPool = [],
      zones = [], naps = [], ports = [], selectedCell = None, saving = False, m_toasts = []\<rparr>"

definition isFibra :: "modal_state \<Rightarrow> bool" where
  "isFibra st =
     (case selectedCell st of None \<Rightarrow> False
      | Some c \<Rightarrow> cell_type c = ''fibra'' \<or> cell_type c = ''hifiber_ipoe'')"

definition isAntena :: "modal_state \<Rightarrow> bool" where
  "isAntena st = (case selectedCell st of None \<Rightarrow> False | Some c \<Rightarrow> cell_type c = ''antenas'')"

definition toast_error :: "string \<Rightarrow> modal_state \<Rightarrow> modal_state" where
  "toast_error msg st = st\<lparr>m_toasts := m_toasts st @ [ToastError msg]\<rparr>"

subsection \<open>The effects of the cascade\<close>

text \<open>The effect on \<open>form.nap_id\<close> ("Al cambiar NAP"): with no NAP it empties \<open>ports\<close>;
  otherwise it clears the port of the form and requests the ports of the NAP, keeping the
  ones that are not occupied. \<open>res\<close> is the outcome of that request.\<close>

definition nap_effect :: "api_error + nap_port list \<Rightarrow> modal_state \<Rightarrow> modal_state" where
  "nap_effect res st =
     (case nap_id (form st) of
        None \<Rightarrow> st\<lparr>ports := []\<rparr>
      | Some n \<Rightarrow>
          (let st1 = st\<lparr>form := (form st)\<lparr>nap_port_id := None\<rparr>\<rparr> in
           case res of
             Inr data \<Rightarrow> st1\<lparr>ports := filter (\<lambda>p. \<not> is_occupied p) data\<rparr>
           | Inl err \<Rightarrow> toast_error ''Error al cargar puertos'' st1))"

text \<open>The effect on \<open>form.olt_zone_id\<close> ("Al cambiar zona"): with no zone it empties
  \<open>naps\<close> and \<open>ports\<close>; otherwise it clears the NAP and the port of the form and requests
  the NAPs of the zone. When that clears a NAP that was set, \<open>form.nap_id\<close> has changed
  and the NAP effect runs with no NAP.\<close>

definition zone_effect :: "api_error + nap list \<Rightarrow> modal_state \<Rightarrow> modal_state" where
  "zone_effect res st =
     (case olt_zone_id (form st) of
        None \<Rightarrow> st\<lparr>naps := [], ports := []\<rparr>
      | Some z \<Rightarrow>
          (let st1 = st\<lparr>form := (form st)\<lparr>nap_id := None, nap_port_id := None\<rparr>\<rparr>;
               st2 = (if nap_id (form st) \<noteq> None then nap_effect (Inl (ApiError None)) st1 else st1)
           in case res of
                Inr data \<Rightarrow> st2\<lparr>naps := data\<rparr>
              | Inl err \<Rightarrow> toast_error ''Error al cargar NAPs'' st2))"

text \<open>The replies \<open>loadCellData\<close> awaits, in the order it awaits them.\<close>

record cell_replies =
  plans_res :: "api_error + int list"
  pool_res :: "api_error + string list"
  zones_res :: "api_error + olt_zone list"
  onus_res :: "api_error + int list"
  cpes_res :: "api_error + int list"

definition loadCellData :: "cell option \<Rightarrow> cell_replies \<Rightarrow> modal_state \<Rightarrow> modal_state" where
  "loadCellData c r st =
     (case plans_res r of
        Inl err \<Rightarrow> toast_error ''Error al cargar datos de celula'' st
      | Inr ps \<Rightarrow>
          (let st1 = st\<lparr>plans := ps\<rparr> in
           case pool_res r of
             Inl err \<Rightarrow> toast_error ''Error al cargar datos de celula'' st1
           | Inr free_ips \<Rightarrow>
               (let st2 = st1\<lparr>ipPool := free_ips\<rparr>;
                    ty = (case c of None \<Rightarrow> [] | Some c' \<Rightarrow> cell_type c')
                in if ty = ''fibra'' \<or> ty = ''hifiber_ipoe'' then
                     (case (zones_res r, onus_res r) of
                        (Inr zs, Inr os) \<Rightarrow> st2\<lparr>zones := zs, onus := os\<rparr>
                      | _ \<Rightarrow> toast_error ''Error al cargar datos de celula'' st2)
                   else if ty = ''antenas'' then
                     (case cpes_res r of
                        Inr cs \<Rightarrow> st2\<lparr>cpes := cs\<rparr>
                      | Inl err \<Rightarrow> toast_error ''Error al cargar datos de celula'' st2)
                   else st2)))"

text \<open>The effect on \<open>form.cell_id\<close> ("Al cambiar celula"): with no cell it only drops the
  selected cell and the plans; otherwise it resets the cascade ("Reset cascada") and loads
  the data of the cell. Clearing a zone or a NAP that was set makes their effects run with
  no zone and no NAP.\<close>

definition cell_effect :: "cell_replies \<Rightarrow> modal_state \<Rightarrow> modal_state" where
  "cell_effect r st =
     (case cell_id (form st) of
        None \<Rightarrow> st\<lparr>selectedCell := None, plans := []\<rparr>
      | Some cid \<Rightarrow>
          (let c = find (\<lambda>c. cell_ident c = cid) (cells st);
               st1 = st\<lparr>selectedCell := c,
                        form := (form st)\<lparr>plan_id := None, olt_zone_id := None, nap_id := None,
                                          nap_port_id := None, onu_id := None, cpe_id := None\<rparr>,
                        zones := [], naps := [], ports := [], ipPool := []\<rparr>;
               st2 = (if olt_zone_id (form st) \<noteq> None then zone_effect (Inl (ApiError None)) st1 else st1);
               st3 = (if nap_id (form st) \<noteq> None then nap_effect (Inl (ApiError None)) st2 else st2)
           in loadCellData c r st3))"

subsection \<open>Changes made by the operator\<close>

text \<open>\<open>handleChange\<close> writes one field of the form. A change of the cell, the zone or the
  NAP is followed by the effect that depends on the field; choosing the value a select
  already has is no change.\<close>

definition handleChange :: "(conn_form \<Rightarrow> conn_form) \<Rightarrow> modal_state \<Rightarrow> modal_state" where
  "handleChange upd st = st\<lparr>form := upd (form st)\<rparr>"

definition select_cell :: "int option \<Rightarrow> cell_replies \<Rightarrow> modal_state \<Rightarrow> modal_state" where
  "select_cell v r st =
     (if v = cell_id (form st) then st else cell_effect r (handleChange (\<lambda>f. f\<lparr>cell_id := v\<rparr>) st))"

definition select_zone :: "int option \<Rightarrow> api_error + nap list \<Rightarrow> modal_state \<Rightarrow> modal_state" where
  "select_zone v res st =
     (if v = olt_zone_id (form st) then st
      else zone_effect res (handleChange (\<lambda>f. f\<lparr>olt_zone_id := v\<rparr>) st))"

definition select_nap :: "int option \<Rightarrow> api_error + nap_port list \<Rightarrow> modal_state \<Rightarrow> modal_state" where
  "select_nap v res st =
     (if v = nap_id (form st) then st
      else nap_effect res (handleChange (\<lambda>f. f\<lparr>nap_id := v\<rparr>) st))"

definition select_port :: "int option \<Rightarrow> modal_state \<Rightarrow> modal_state" where
  "select_port v st = handleChange (\<lambda>f. f\<lparr>nap_port_id := v\<rparr>) st"

text \<open>The values of the options of the three selects of the cascade, after the
  placeholder, and whether each select is enabled. The NAP options are labelled
  \<open>name (free_ports libres)\<close>.\<close>

definition zone_options :: "modal_state \<Rightarrow> int list" where
  "zone_options st = map zone_ident (zones st)"


definition port_options :: "modal_state \<Rightarrow> int list" where
  "port_options st = map port_ident (ports st)"


definition port_enabled :: "modal_state \<Rightarrow> bool" where
  "port_enabled st = (nap_id (form st) \<noteq> None)"

subsection \<open>handleSubmit\<close>

text \<open>The body of \<open>POST /connections/fiber\<close> and of \<open>POST /connections/antenna\<close>: the
  fields taken from the cascade and the network section (\<open>parseInt\<close> of an id field gives
  the id back).\<close>

record fiber_body =
  fb_client_id :: int
  fb_cell_id :: int
  fb_plan_id :: int
  fb_olt_zone_id :: int
  fb_nap_id :: int
  fb_nap_port_id :: int
  fb_ip_address :: string
  fb_pppoe_profile :: string
  fb_pppoe_username :: string
  fb_pppoe_password_encrypted :: string
  fb_onu_id :: int
  fb_mode :: string

record antenna_body =
  ab_client_id :: int
  ab_cell_id :: int
  ab_plan_id :: int
  ab_ip_address :: string
  ab_ip_additional :: "string option"
  ab_cpe_id :: int
  ab_router_id :: "int option"

text \<open>What a submission does, in order: toasts, requests, the \<open>onSaved\<close> callback.\<close>

datatype action =
  Toast toast
| PostFiber fiber_body
| PostAntenna antenna_body
| OnSaved

definition after_post :: "api_error + unit \<Rightarrow> string \<Rightarrow> action list" where
  "after_post res ok_msg =
     (case res of
        Inr u \<Rightarrow> [Toast (ToastSuccess ok_msg), OnSaved]
      | Inl err \<Rightarrow> [Toast (ToastError (error_text err ''Error al crear conexion''))])"

text \<open>\<open>handleSubmit\<close>; \<open>res\<close> is the outcome of the request, if one is sent. Every
  \<open>return toast.error(...)\<close> is a branch that ends with that toast alone. The
  \<open>saving\<close> flag, set before the \<open>try\<close> block and cleared in its \<open>finally\<close>, is not
  among the actions.\<close>

definition handleSubmit :: "modal_state \<Rightarrow> api_error + unit \<Rightarrow> action list" where
  "handleSubmit st res =
     (let f = form st in
      case client_id f of
        None \<Rightarrow> [Toast (ToastError ''Selecciona un cliente'')]
      | Some client \<Rightarrow>
      (case cell_id f of
        None \<Rightarrow> [Toast (ToastError ''Selecciona una celula'')]
      | Some cid \<Rightarrow>
      (case plan_id f of
        None \<Rightarrow> [Toast (ToastError ''Selecciona un plan'')]
      | Some plan \<Rightarrow>
          if isFibra st then
            (case (olt_zone_id f, nap_id f, nap_port_id f) of
               (Some z, Some n, Some p) \<Rightarrow>
                 if ip_address f = [] \<or> pppoe_username f = [] \<or> pppoe_password_encrypted f = []
                 then [Toast (ToastError ''Completa los datos PPPoE'')]
                 else
                   (case onu_id f of
                      None \<Rightarrow> [Toast (ToastError ''Selecciona una ONU'')]
                    | Some onu \<Rightarrow>
                        PostFiber \<lparr>fb_client_id = client, fb_cell_id = cid, fb_plan_id = plan,
                          fb_olt_zone_id = z, fb_nap_id = n, fb_nap_port_id = p,
                          fb_ip_address = ip_address f,
                          fb_pppoe_profile =
                            (if pppoe_profile f = [] then ''default-encryption'' else pppoe_profile f),
                          fb_pppoe_username = pppoe_username f,
                          fb_pppoe_password_encrypted = pppoe_password_encrypted f,
                          fb_onu_id = onu, fb_mode = mode f\<rparr>
                        # after_post res ''Conexion FIBRA creada'')
             | _ \<Rightarrow> [Toast (ToastError ''Selecciona zona, NAP y puerto'')])
          else
            if ip_address f = [] then [Toast (ToastError ''Ingresa la IP'')]
            else
              (case cpe_id f of
                 None \<Rightarrow> [Toast (ToastError ''Selecciona un CPE'')]
               | Some cpe \<Rightarrow>
                   PostAntenna \<lparr>ab_client_id = client, ab_cell_id = cid, ab_plan_id = plan,
                     ab_ip_address = ip_address f,
                     ab_ip_additional = (if ip_additional f = [] then None else Some (ip_additional f)),
                     ab_cpe_id = cpe, ab_router_id = router_id f\<rparr>
                   # after_post res ''Conexion ANTENA creada''))))"

definition is_post :: "action \<Rightarrow> bool" where
  "is_post a = (case a of PostFiber b \<Rightarrow> True | PostAntenna b \<Rightarrow> True | _ \<Rightarrow> False)"

definition is_error_toast :: "action \<Rightarrow> bool" where
  "is_error_toast a = (case a of Toast (ToastError m) \<Rightarrow> True | _ \<Rightarrow> False)"

text \<open>The required fields of a fiber draft.\<close>

definition fiber_complete :: "conn_form \<Rightarrow> bool" where
  "fiber_complete f =
     (client_id f \<noteq> None \<and> cell_id f \<noteq> None \<and> plan_id f \<noteq> None \<and> olt_zone_id f \<noteq> None \<and>
      nap_id f \<noteq> None \<and> nap_port_id f \<noteq> None \<and> ip_address f \<noteq> [] \<and> pppoe_username f \<noteq> [] \<and>
      pppoe_password_encrypted f \<noteq> [] \<and> onu_id f \<noteq> None)"


section \<open>CellDetailPage.jsx\<close>

text \<open>\<open>usedPct\<close> of InterfacePoolBlock:
  \<open>iface.total > 0 ? Math.round((iface.used / iface.total) * 100) : 0\<close>.\<close>

definition usedPct :: "rat \<Rightarrow> rat \<Rightarrow> int" where
  "usedPct iface_used iface_total =
     (if 0 < iface_total then Math_round (jmul (jdiv iface_used iface_total) 100) else 0)"


section \<open>CellsPage.jsx: CellCreateModal\<close>

record select_option =
  opt_value :: string
  opt_label :: string

definition getSuggestedAssignment :: "string \<Rightarrow> string" where
  "getSuggestedAssignment t =
     (if t = ''fibra'' then ''pppoe_distributed''
      else if t = ''hifiber_ipoe'' then ''dhcp_pool''
      else ''static_addressing'')"

definition getAssignmentOptions :: "string \<Rightarrow> select_option list" where
  "getAssignmentOptions t =
     (if t = ''fibra'' then
        [\<lparr>opt_value = ''pppoe_distributed'', opt_label = ''PPPoE Distribuido''\<rparr>,
         \<lparr>opt_value = ''dhcp_pool'', opt_label = ''DHCP Pool (IPoE)''\<rparr>]
      else if t = ''antenas'' then
        [\<lparr>opt_value = ''static_addressing'', opt_label = ''Estatico''\<rparr>,
         \<lparr>opt_value = ''dhcp_pool'', opt_label = ''DHCP Pool''\<rparr>]
      else if t = ''hifiber_ipoe'' then
        [\<lparr>opt_value = ''dhcp_pool'', opt_label = ''DHCP Pool''\<rparr>]
      else [])"

text \<open>The options of the select "Tipo de celula".\<close>

definition cell_type_options :: "select_option list" where
  "cell_type_options =
     [\<lparr>opt_value = ''fibra'', opt_label = ''Fibra PPPoE''\<rparr>,
      \<lparr>opt_value = ''antenas'', opt_label = ''Antenas''\<rparr>,
      \<lparr>opt_value = ''hifiber_ipoe'', opt_label = ''Fibra IPoE''\<rparr>]"

text \<open>The two fields of the creation form the rule is about; \<open>EMPTY\<close> is the form the
  modal opens with.\<close>

record cell_form =
  cf_cell_type :: string
  cf_assignment :: string

definition EMPTY :: cell_form where
  "EMPTY = \<lparr>cf_cell_type = ''fibra'', cf_assignment = ''pppoe_distributed''\<rparr>"

text \<open>The effect on \<open>form.cell_type\<close>:
  \<open>setForm(prev => ({ ...prev, assignment: getSuggestedAssignment(prev.cell_type) }))\<close>.\<close>

definition cell_type_effect :: "cell_form \<Rightarrow> cell_form" where
  "cell_type_effect f = f\<lparr>cf_assignment := getSuggestedAssignment (cf_cell_type f)\<rparr>"

text \<open>Choosing a type in the select: \<open>handleChange\<close>, then the effect when the type has
  changed. Choosing an assignment: \<open>handleChange\<close> alone.\<close>

definition change_cell_type :: "string \<Rightarrow> cell_form \<Rightarrow> cell_form" where
  "change_cell_type v f =
     (if v = cf_cell_type f then f else cell_type_effect (f\<lparr>cf_cell_type := v\<rparr>))"

definition change_assignment :: "string \<Rightarrow> cell_form \<Rightarrow> cell_form" where
  "change_assignment v f = f\<lparr>cf_assignment := v\<rparr>"

text \<open>The assignment values the select "Asignacion de IPs" offers for a type.\<close>

definition offered :: "string \<Rightarrow> string list" where
  "offered t = map opt_value (getAssignmentOptions t)"

text \<open>The forms the operator can reach in the modal: it opens with \<open>EMPTY\<close> (on which the
  effect has run), and each select only takes a value among its options.\<close>

inductive reachable_form :: "cell_form \<Rightarrow> bool" where
  opened: "reachable_form (cell_type_effect EMPTY)"
| type_chosen: "reachable_form f \<Longrightarrow> v \<in> set (map opt_value cell_type_options) \<Longrightarrow>
     reachable_form (change_cell_type v f)"
| assignment_chosen: "reachable_form f \<Longrightarrow> v \<in> set (offered (cf_cell_type f)) \<Longrightarrow>
     reachable_form (change_assignment v f)"

text \<open>The compatibility rule in the words of the specification: PPPoE only for the
  fiber-PPPoE type (\<open>fibra\<close>), DHCP for the IPoE (\<open>hifiber_ipoe\<close>) and wireless (\<open>antenas\<close>)
  types, static addressing only for the wireless type.\<close>

definition spec_compatible :: "string \<Rightarrow> string \<Rightarrow> bool" where
  "spec_compatible t a =
     ((a = ''pppoe_distributed'' \<and> t = ''fibra'') \<or>
      (a = ''dhcp_pool'' \<and> (t = ''hifiber_ipoe'' \<or> t = ''antenas'')) \<or>
      (a = ''static_addressing'' \<and> t = ''antenas''))"


section \<open>Example data\<close>

text \<open>A NAP with eight ports, three of them occupied, as the ports request returns it.\<close>

definition ports8 :: "nap_port list" where
  "ports8 =
     [\<lparr>port_ident = 101, port_number = 1, is_occupied = False\<rparr>,
      \<lparr>port_ident = 102, port_number = 2, is_occupied = True\<rparr>,
      \<lparr>port_ident = 103, port_number = 3, is_occupied = False\<rparr>,
      \<lparr>port_ident = 104, port_number = 4, is_occupied = False\<rparr>,
      \<lparr>port_ident = 105, port_number = 5, is_occupied = True\<rparr>,
      \<lparr>port_ident = 106, port_number = 6, is_occupied = False\<rparr>,
      \<lparr>port_ident = 107, port_number = 7, is_occupied = True\<rparr>,
      \<lparr>port_ident = 108, port_number = 8, is_occupied = False\<rparr>]"

text \<open>Two NAPs of one zone, the second with no free port.\<close>

definition naps2 :: "nap list" where
  "naps2 =
     [\<lparr>nap_ident = 7, nap_name = ''NAP-7'', total_ports = 8, free_ports = 5\<rparr>,
      \<lparr>nap_ident = 9, nap_name = ''NAP-9'', total_ports = 8, free_ports = 0\<rparr>]"

text \<open>A fiber cell, a complete fiber draft for it, and the same draft without its ONU.\<close>

definition fibra_cell :: cell where
  "fibra_cell = \<lparr>cell_ident = 1, cell_name = ''Centro'', cell_type = ''fibra''\<rparr>"

definition draft_ok :: modal_state where
  "draft_ok =
     \<lparr>form = \<lparr>client_id = Some 5, cell_id = Some 1, plan_id = Some 3, olt_zone_id = Some 1,
        nap_id = Some 7, nap_port_id = Some 101, ip_address = ''10.0.0.5'',
        pppoe_profile = ''default-encryption'', pppoe_username = ''jperez.fibra'',
        pppoe_password_encrypted = ''secreto'', onu_id = Some 40, mode = ''router'',
        cpe_id = None, router_id = None, ip_additional = []\<rparr>,
      cells = [fibra_cell], plans = [3], onus = [40], cpes = [], ipPool = [''10.0.0.5''],
      zones = [\<lparr>zone_ident = 1, zone_name = ''Zona 1''\<rparr>], naps = naps2,
      ports = filter (\<lambda>p. \<not> is_occupied p) ports8, selectedCell = Some fibra_cell,
      saving = False, m_toasts = []\<rparr>"

definition draft_no_onu :: modal_state where
  "draft_no_onu = draft_ok\<lparr>form := (form draft_ok)\<lparr>onu_id := None\<rparr>\<rparr>"

text \<open>Credentials of a router and the system information it returns: one interface with
  an address, one without.\<close>

definition creds1 :: mk_creds where
  "creds1 = \<lparr>host = ''172.168.10.1'', username = ''admin'', password = ''x'', port = 8728,
     use_ssl = False\<rparr>"

definition info1 :: sys_info where
  "info1 = \<lparr>identity = ''MK-Centro'',
     si_interfaces = [\<lparr>si_name = ''ether1'', si_ips = [''192.168.10.1/29'']\<rparr>,
                      \<lparr>si_name = ''ether2'', si_ips = []\<rparr>]\<rparr>"

text \<open>The pool report of that router, and a second router whose interface with an
  address is also named \<open>ether1\<close>.\<close>

definition pool1_ether1 :: pool_iface where
  "pool1_ether1 =
     \<lparr>pi_name = ''ether1'', has_pool = True,
      cidrs = [\<lparr>cidr = ''192.168.10.0/29'', p_total = 6, p_occupied = 2, p_free = 4,
                pct_used = 33,
                ips = [\<lparr>ip = ''192.168.10.2'', occupied = True, client_name = ''Juan Perez'',
                         status = ''active''\<rparr>,
                       \<lparr>ip = ''192.168.10.3'', occupied = False, client_name = [],
                         status = ''free''\<rparr>]\<rparr>]\<rparr>"

definition pool1 :: "pool_iface list" where
  "pool1 = [pool1_ether1]"

definition creds2 :: mk_creds where
  "creds2 = \<lparr>host = ''172.168.20.1'', username = ''admin'', password = ''y'', port = 8728,
     use_ssl = False\<rparr>"

definition info2 :: sys_info where
  "info2 = \<lparr>identity = ''MK-Norte'',
     si_interfaces = [\<lparr>si_name = ''ether1'', si_ips = [''10.20.0.1/24'']\<rparr>]\<rparr>"

text \<open>A run of the page: the operator connects to the first router and disconnects
  before the pool request has settled; its reply arrives afterwards. The operator then
  connects to the second router, whose pool request fails.\<close>

definition late_reply :: page_state where
  "late_reply =
     poolSettled (Inr pool1)
       (handleDisconnect (fst (handleConnect creds1 (Inr info1) page_init)))"

definition reconnected :: page_state where
  "reconnected =
     poolSettled (Inl (ApiError None)) (fst (handleConnect creds2 (Inr info2) late_reply))"

text \<open>Replies of the traffic snapshot and the time of the first poll.\<close>

definition T0 :: int where
  "T0 = 1700000000000"

definition poll_a :: "iface_counters list" where
  "poll_a = [\<lparr>name = ''ether1'', tx_byte = 1000, rx_byte = 7000, running = True\<rparr>]"

definition poll_b :: "iface_counters list" where
  "poll_b = [\<lparr>name = ''ether1'', tx_byte = 2000, rx_byte = 7500, running = True\<rparr>,
             \<lparr>name = ''ether2'', tx_byte = 10, rx_byte = 20, running = False\<rparr>]"

definition poll_c :: "iface_counters list" where
  "poll_c = [\<lparr>name = ''ether1'', tx_byte = 500, rx_byte = 9500, running = True\<rparr>]"

definition poll_d :: "iface_counters list" where
  "poll_d = [\<lparr>name = ''ether1'', tx_byte = 4000, rx_byte = 7000, running = True\<rparr>]"

text \<open>Two replies of a router one of whose interfaces has been named \<open>__proto__\<close>, and a
  first reply with an interface named \<open>constructor\<close>.\<close>

definition poll_p1 :: "iface_counters list" where
  "poll_p1 = [\<lparr>name = ''ether1'', tx_byte = 1000, rx_byte = 7000, running = True\<rparr>,
              \<lparr>name = ''__proto__'', tx_byte = 1000, rx_byte = 7000, running = True\<rparr>]"

definition poll_p2 :: "iface_counters list" where
  "poll_p2 = [\<lparr>name = ''ether1'', tx_byte = 2000, rx_byte = 7500, running = True\<rparr>,
              \<lparr>name = ''__proto__'', tx_byte = 2000, rx_byte = 7500, running = True\<rparr>]"

definition poll_k :: "iface_counters list" where
  "poll_k = [\<lparr>name = ''constructor'', tx_byte = 1000, rx_byte = 7000, running = True\<rparr>]"

text \<open>A run of the modal on a fiber cell with one zone and the NAPs 7 and 8: the
  operator selects the cell, the zone and NAP 7, whose ports arrive; then selects NAP 8,
  whose ports request fails; then picks port 101 and fills in the rest of the draft.\<close>

definition naps_zone1 :: "nap list" where
  "naps_zone1 =
     [\<lparr>nap_ident = 7, nap_name = ''NAP-7'', total_ports = 8, free_ports = 5\<rparr>,
      \<lparr>nap_ident = 8, nap_name = ''NAP-8'', total_ports = 8, free_ports = 8\<rparr>]"

definition replies1 :: cell_replies where
  "replies1 =
     \<lparr>plans_res = Inr [3], pool_res = Inr [''10.0.0.5''],
      zones_res = Inr [\<lparr>zone_ident = 1, zone_name = ''Zona 1''\<rparr>], onus_res = Inr [40],
      cpes_res = Inr []\<rparr>"

definition at_nap7 :: modal_state where
  "at_nap7 =
     select_nap (Some 7) (Inr ports8)
       (select_zone (Some 1) (Inr naps_zone1)
          (select_cell (Some 1) replies1 (modal_init (Some 5) [fibra_cell])))"

definition at_nap8 :: modal_state where
  "at_nap8 = select_nap (Some 8) (Inl (ApiError None)) at_nap7"

definition stale_draft :: modal_state where
  "stale_draft =
     handleChange (\<lambda>f. f\<lparr>plan_id := Some 3, ip_address := ''10.0.0.5'',
         pppoe_username := ''jperez.fibra'', pppoe_password_encrypted := ''secreto'',
         onu_id := Some 40\<rparr>)
       (select_port (Some 101) at_nap8)"


section \<open>The pool filters of InterfaceIpBlock\<close>

lemma keepIp_occupied: "filter (keepIp ''occupied'') xs = filter occupied xs"
  by (simp add: keepIp_def cong: filter_cong)

lemma keepIp_free: "filter (keepIp ''free'') xs = filter (\<lambda>s. \<not> occupied s) xs"
  by (simp add: keepIp_def cong: filter_cong)

lemma keepIp_all: "filter (keepIp ''all'') xs = xs"
  by (simp add: keepIp_def cong: filter_cong)

text \<open>
  Claim C10. For every list of address slots, the entries kept by the "occupied" filter
  and those kept by the "free" filter are disjoint, together they are exactly the list
  (as multisets, hence their counts add up to its length), and the "all" filter returns
  the list unchanged.
\<close>

theorem filters_partition:
  "mset (filteredIps ''occupied'' xs) + mset (filteredIps ''free'' xs) = mset xs
   \<and> set (filteredIps ''occupied'' xs) \<inter> set (filteredIps ''free'' xs) = {}
   \<and> length (filteredIps ''occupied'' xs) + length (filteredIps ''free'' xs) = length xs
   \<and> filteredIps ''all'' xs = xs"
proof -
  have m: "mset (filter occupied xs) + mset (filter (\<lambda>s. \<not> occupied s) xs) = mset xs"
    by (induction xs) simp_all
  have l: "length (filter occupied xs) + length (filter (\<lambda>s. \<not> occupied s) xs) = length xs"
    by (rule sum_length_filter_compl)
  have d: "set (filter occupied xs) \<inter> set (filter (\<lambda>s. \<not> occupied s) xs) = {}"
    by auto
  show ?thesis
    unfolding filteredIps_def keepIp_occupied keepIp_free keepIp_all
    using m l d by simp
qed


section \<open>The cascade of CreateConnectionModal\<close>

subsection \<open>Ports\<close>

lemma select_nap_ports:
  assumes "Some n \<noteq> nap_id (form st)"
  shows "ports (select_nap (Some n) (Inr data) st) = filter (\<lambda>p. \<not> is_occupied p) data"
  using assms by (simp add: select_nap_def nap_effect_def handleChange_def)

lemma length_free_ports:
  "length (filter (\<lambda>p. \<not> is_occupied p) data) = length data - length (filter is_occupied data)"
  using sum_length_filter_compl [of is_occupied data] by simp

text \<open>
  When the operator selects a NAP and the ports request returns \<open>data\<close>, the ports
  offered are exactly the returned ports whose \<open>is_occupied\<close> is false, in the order of
  the reply: no occupied port is among them, they are distinct when the returned ids are,
  and eight returned ports of which three are occupied leave five. Whatever the outcome of
  a request, a selection never brings an occupied port among the ports offered.
\<close>

lemma ports_of_successful_request:
  assumes "Some n \<noteq> nap_id (form st)"
  shows "ports (select_nap (Some n) (Inr data) st) = filter (\<lambda>p. \<not> is_occupied p) data
    \<and> port_options (select_nap (Some n) (Inr data) st)
        = map port_ident (filter (\<lambda>p. \<not> is_occupied p) data)
    \<and> port_enabled (select_nap (Some n) (Inr data) st)
    \<and> (\<forall>p \<in> set (ports (select_nap (Some n) (Inr data) st)). p \<in> set data \<and> \<not> is_occupied p)
    \<and> (distinct (map port_ident data)
          \<longrightarrow> distinct (port_options (select_nap (Some n) (Inr data) st)))
    \<and> (length data = 8 \<and> length (filter is_occupied data) = 3
          \<longrightarrow> length (port_options (select_nap (Some n) (Inr data) st)) = 5)
    \<and> ((\<forall>p \<in> set (ports st). \<not> is_occupied p)
          \<longrightarrow> (\<forall>p \<in> set (ports (select_nap v res st)). \<not> is_occupied p))"
proof -
  let ?st = "select_nap (Some n) (Inr data) st"
  have k: "(\<forall>p \<in> set (ports st). \<not> is_occupied p)
      \<Longrightarrow> (\<forall>p \<in> set (ports (select_nap v res st)). \<not> is_occupied p)"
    by (auto simp add: select_nap_def nap_effect_def handleChange_def toast_error_def Let_def
        split: option.splits sum.splits)
  have p: "ports ?st = filter (\<lambda>p. \<not> is_occupied p) data"
    using assms by (rule select_nap_ports)
  have e: "port_enabled ?st"
    using assms by (simp add: port_enabled_def select_nap_def nap_effect_def handleChange_def)
  have d: "distinct (map port_ident data) \<Longrightarrow> distinct (port_options ?st)"
    by (simp add: port_options_def p distinct_map_filter)
  have l: "length data = 8 \<and> length (filter is_occupied data) = 3 \<Longrightarrow> length (port_options ?st) = 5"
    by (simp add: port_options_def p length_free_ports)
  show ?thesis
    using p e d l k by (simp add: port_options_def)
qed

text \<open>When the ports request fails, the effect only reports the error: the ports offered
  stay the ones of the NAP selected before.\<close>

lemma ports_of_failed_request:
  "ports (select_nap (Some n) (Inl err) st) = ports st"
  by (simp add: select_nap_def handleChange_def nap_effect_def toast_error_def)

lemmas run_defs = at_nap7_def at_nap8_def stale_draft_def select_nap_def select_zone_def
  select_cell_def nap_effect_def zone_effect_def cell_effect_def loadCellData_def
  handleChange_def select_port_def modal_init_def form_init_def replies1_def naps_zone1_def
  ports8_def fibra_cell_def toast_error_def Let_def

text \<open>
  Claim C3 says that after a NAP is selected the ports offered are exactly the free ports
  returned for that NAP. The run of the example data departs from it. The request for NAP 7
  returns eight ports, three of them occupied, and the five free ones are offered. The
  operator then selects NAP 8 and its ports request fails, so that no port has been
  returned for NAP 8: the port select is enabled all the same and offers the five ports of
  NAP 7.
\<close>

theorem failed_request_offers_previous_ports:
  "nap_id (form at_nap7) = Some 7
   \<and> map port_ident ports8 = [101, 102, 103, 104, 105, 106, 107, 108]
   \<and> map is_occupied ports8 = [False, True, False, False, True, False, True, False]
   \<and> port_options at_nap7 = [101, 103, 104, 106, 108]
   \<and> at_nap8 = select_nap (Some 8) (Inl (ApiError None)) at_nap7
   \<and> nap_id (form at_nap8) = Some 8
   \<and> port_enabled at_nap8
   \<and> ports at_nap8 = ports at_nap7
   \<and> port_options at_nap8 = [101, 103, 104, 106, 108]"
proof -
  have a: "nap_id (form at_nap7) = Some 7 \<and> port_options at_nap7 = [101, 103, 104, 106, 108]"
    by (simp add: run_defs port_options_def)
  have b: "map port_ident ports8 = [101, 102, 103, 104, 105, 106, 107, 108]
      \<and> map is_occupied ports8 = [False, True, False, False, True, False, True, False]"
    by (simp add: ports8_def)
  have c: "at_nap8 = select_nap (Some 8) (Inl (ApiError None)) at_nap7"
    by (simp add: at_nap8_def)
  have d: "nap_id (form at_nap8) = Some 8 \<and> port_enabled at_nap8
      \<and> port_options at_nap8 = [101, 103, 104, 106, 108]"
    by (simp add: run_defs port_options_def port_enabled_def)
  have e: "ports at_nap8 = ports at_nap7"
    unfolding at_nap8_def by (rule ports_of_failed_request)
  from a b c d e show ?thesis by simp
qed

subsection \<open>NAPs\<close>





subsection \<open>Submission\<close>

text \<open>
  Claim C8. For a draft on a fiber cell (\<open>isFibra\<close>), submitting with any required field
  missing (client, cell, plan, zone, NAP, port, IP address, PPPoE username, PPPoE
  password, ONU) does nothing but report one validation message; when all are present the
  first thing it does is the request \<open>POST /connections/fiber\<close>. So a create request is
  issued exactly when the draft is complete.
\<close>

theorem fiber_submit_gated:
  assumes "isFibra st"
  shows "(\<not> fiber_complete (form st) \<longrightarrow> (\<exists>m. handleSubmit st res = [Toast (ToastError m)]))
    \<and> (fiber_complete (form st) \<longrightarrow>
         (\<exists>b. handleSubmit st res = PostFiber b # after_post res ''Conexion FIBRA creada''))
    \<and> ((\<exists>a \<in> set (handleSubmit st res). is_post a) \<longleftrightarrow> fiber_complete (form st))"
proof -
  have inc: "\<not> fiber_complete (form st) \<Longrightarrow> \<exists>m. handleSubmit st res = [Toast (ToastError m)]"
    using assms
    by (auto simp add: handleSubmit_def fiber_complete_def Let_def split: option.splits)
  have com: "fiber_complete (form st) \<Longrightarrow>
      \<exists>b. handleSubmit st res = PostFiber b # after_post res ''Conexion FIBRA creada''"
    using assms
    by (auto simp add: handleSubmit_def fiber_complete_def Let_def split: option.splits)
  have "(\<exists>a \<in> set (handleSubmit st res). is_post a) \<longleftrightarrow> fiber_complete (form st)"
  proof (cases "fiber_complete (form st)")
    case True
    from com [OF True] obtain b
      where "handleSubmit st res = PostFiber b # after_post res ''Conexion FIBRA creada''"
      by blast
    then show ?thesis using True by (simp add: is_post_def)
  next
    case False
    from inc [OF False] obtain m where "handleSubmit st res = [Toast (ToastError m)]" by blast
    then show ?thesis using False by (simp add: is_post_def)
  qed
  then show ?thesis using inc com by blast
qed

theorem fiber_submit_gated_witness:
  "isFibra draft_no_onu \<and> \<not> fiber_complete (form draft_no_onu)
   \<and> handleSubmit draft_no_onu (Inr ()) = [Toast (ToastError ''Selecciona una ONU'')]
   \<and> isFibra draft_ok \<and> fiber_complete (form draft_ok)
   \<and> (\<exists>b. handleSubmit draft_ok (Inr ()) = PostFiber b # after_post (Inr ()) ''Conexion FIBRA creada'')"
proof -
  have f1: "isFibra draft_no_onu" and f2: "isFibra draft_ok"
    by (simp_all add: isFibra_def draft_no_onu_def draft_ok_def fibra_cell_def)
  have n: "\<not> fiber_complete (form draft_no_onu)"
    by (simp add: fiber_complete_def draft_no_onu_def)
  have c: "fiber_complete (form draft_ok)"
    by (simp add: fiber_complete_def draft_ok_def)
  have t: "handleSubmit draft_no_onu (Inr ()) = [Toast (ToastError ''Selecciona una ONU'')]"
    using f1 by (simp add: handleSubmit_def draft_no_onu_def draft_ok_def Let_def)
  show ?thesis
    using f1 f2 n c t fiber_submit_gated [OF f2, of "Inr ()"] fiber_submit_gated [OF f1, of "Inr ()"]
    by simp
qed


section \<open>The connected-device view of NodosRedPage\<close>

lemma poolMap_None: "poolMap None = Map.empty"
  by (simp add: poolMap_def)

lemma ipBlocks_None: "ipBlocks ifs None = map (\<lambda>i. (i, None)) (withIp ifs)"
  by (simp add: ipBlocks_def poolMap_None)

text \<open>
  After a successful connection the pool request is sent and the loading flag is set. If
  that request fails, the failure is absorbed: no toast is added, the loading flag is back
  to false, the pool data is what it was before the connection, and the tab still shows
  the connected view with the system information and the traffic monitor on the
  credentials just used.
\<close>

lemma pool_failure_keeps_page:
  "poolSettled (Inl err) st = st\<lparr>loadingPool := False\<rparr>"
  by (simp add: poolSettled_def)

lemma pool_failure_view:
  assumes "st2 = poolSettled (Inl err) (fst (handleConnect formCreds (Inr info) st))"
  shows "snd (handleConnect formCreds (Inr info) st)
    \<and> loadingPool (fst (handleConnect formCreds (Inr info) st))
    \<and> sysInfo st2 = Some info \<and> creds st2 = Some formCreds
    \<and> poolData st2 = poolData st \<and> \<not> loadingPool st2 \<and> \<not> connecting st2
    \<and> toasts st2 = toasts (fst (handleConnect formCreds (Inr info) st))
    \<and> mikrotik_tab st2
        = ConnectedView info (Some formCreds) (ipBlocks (si_interfaces info) (poolData st)) False"
  using assms by (simp add: handleConnect_def poolSettled_def mikrotik_tab_def)

text \<open>When no pool data was held before the connection, every interface block is then
  without a pool.\<close>

lemma pool_failure_without_pool_data:
  assumes "poolData st = None"
    and "st2 = poolSettled (Inl err) (fst (handleConnect formCreds (Inr info) st))"
  shows "poolData st2 = None
    \<and> mikrotik_tab st2
        = ConnectedView info (Some formCreds) (map (\<lambda>i. (i, None)) (withIp (si_interfaces info))) False
    \<and> (\<forall>b \<in> set (ipBlocks (si_interfaces info) (poolData st2)). \<not> hasPool (snd b))"
proof -
  have p: "poolData st2 = None"
    using assms by (simp add: handleConnect_def poolSettled_def)
  have v: "mikrotik_tab st2
        = ConnectedView info (Some formCreds) (map (\<lambda>i. (i, None)) (withIp (si_interfaces info))) False"
    using assms by (simp add: handleConnect_def poolSettled_def mikrotik_tab_def ipBlocks_None)
  have b: "\<forall>b \<in> set (ipBlocks (si_interfaces info) (poolData st2)). \<not> hasPool (snd b)"
    unfolding p ipBlocks_None by (auto simp add: hasPool_def)
  from p v b show ?thesis by simp
qed

lemma fresh_page_pool_failure:
  "mikrotik_tab (poolSettled (Inl (ApiError None)) (fst (handleConnect creds1 (Inr info1) page_init)))
      = ConnectedView info1 (Some creds1) [(\<lparr>si_name = ''ether1'', si_ips = [''192.168.10.1/29'']\<rparr>, None)] False
   \<and> toasts (poolSettled (Inl (ApiError None)) (fst (handleConnect creds1 (Inr info1) page_init)))
      = [ToastSuccess ''Conectado a MK-Centro'']"
  by (simp add: handleConnect_def poolSettled_def mikrotik_tab_def ipBlocks_None page_init_def
      info1_def withIp_def)

lemmas page_defs = late_reply_def reconnected_def handleConnect_def handleDisconnect_def
  poolSettled_def page_init_def mikrotik_tab_def ipBlocks_def poolMap_def withIp_def
  info1_def info2_def pool1_def

text \<open>
  Claim C7 says that after a failure of the pool query the pool data stays absent and the
  interfaces are shown without a pool. The run of the example data departs from it.
  \<open>handleDisconnect\<close> clears the pool data, but the reply of a pool request still under
  way is stored when it arrives, while the connect form is shown; and \<open>handleConnect\<close>
  does not clear the pool data. So after the connection to the second router, whose pool
  request fails, the connected view shows its interface \<open>ether1\<close> with the pool and the
  addresses of the first router.
\<close>

theorem failed_pool_shows_previous_router:
  "snd (handleConnect creds1 (Inr info1) page_init)
   \<and> mikrotik_tab (handleDisconnect (fst (handleConnect creds1 (Inr info1) page_init)))
       = ConnectFormView False
   \<and> poolData (handleDisconnect (fst (handleConnect creds1 (Inr info1) page_init))) = None
   \<and> mikrotik_tab late_reply = ConnectFormView False
   \<and> poolData late_reply = Some pool1
   \<and> snd (handleConnect creds2 (Inr info2) late_reply)
   \<and> loadingPool (fst (handleConnect creds2 (Inr info2) late_reply))
   \<and> reconnected = poolSettled (Inl (ApiError None)) (fst (handleConnect creds2 (Inr info2) late_reply))
   \<and> \<not> loadingPool reconnected
   \<and> poolData reconnected = Some pool1
   \<and> mikrotik_tab reconnected
       = ConnectedView info2 (Some creds2)
           [(\<lparr>si_name = ''ether1'', si_ips = [''10.20.0.1/24'']\<rparr>, Some pool1_ether1)] False
   \<and> hasPool (Some pool1_ether1)
   \<and> map ip (allIps (Some pool1_ether1)) = [''192.168.10.2'', ''192.168.10.3'']"
proof -
  have a: "snd (handleConnect creds1 (Inr info1) page_init)
      \<and> mikrotik_tab (handleDisconnect (fst (handleConnect creds1 (Inr info1) page_init)))
          = ConnectFormView False
      \<and> poolData (handleDisconnect (fst (handleConnect creds1 (Inr info1) page_init))) = None"
    by (simp add: page_defs)
  have b: "mikrotik_tab late_reply = ConnectFormView False \<and> poolData late_reply = Some pool1"
    by (simp add: page_defs)
  have c: "snd (handleConnect creds2 (Inr info2) late_reply)
      \<and> loadingPool (fst (handleConnect creds2 (Inr info2) late_reply))"
    by (simp add: page_defs)
  have d: "reconnected = poolSettled (Inl (ApiError None)) (fst (handleConnect creds2 (Inr info2) late_reply))"
    by (simp add: reconnected_def)
  have e: "\<not> loadingPool reconnected \<and> poolData reconnected = Some pool1"
    by (simp add: page_defs)
  have f: "mikrotik_tab reconnected
       = ConnectedView info2 (Some creds2)
           [(\<lparr>si_name = ''ether1'', si_ips = [''10.20.0.1/24'']\<rparr>, Some pool1_ether1)] False"
    by (simp add: page_defs pool1_ether1_def)
  have g: "hasPool (Some pool1_ether1)
      \<and> map ip (allIps (Some pool1_ether1)) = [''192.168.10.2'', ''192.168.10.3'']"
    by (simp add: hasPool_def allIps_def firstPool_def pool1_ether1_def)
  from a b c d e f g show ?thesis by simp
qed


section \<open>Cell type and assignment in CellCreateModal\<close>

lemma offered_fibra: "offered ''fibra'' = [''pppoe_distributed'', ''dhcp_pool'']"
  by (simp add: offered_def getAssignmentOptions_def)

lemma offered_antenas: "offered ''antenas'' = [''static_addressing'', ''dhcp_pool'']"
  by (simp add: offered_def getAssignmentOptions_def)

lemma offered_ipoe: "offered ''hifiber_ipoe'' = [''dhcp_pool'']"
  by (simp add: offered_def getAssignmentOptions_def)

lemma cell_types: "set (map opt_value cell_type_options) = {''fibra'', ''antenas'', ''hifiber_ipoe''}"
  by (simp add: cell_type_options_def)

lemma offered_iff:
  assumes "t \<in> set (map opt_value cell_type_options)"
  shows "a \<in> set (offered t) \<longleftrightarrow> spec_compatible t a \<or> (t = ''fibra'' \<and> a = ''dhcp_pool'')"
proof -
  from assms consider "t = ''fibra''" | "t = ''antenas''" | "t = ''hifiber_ipoe''"
    unfolding cell_types by blast
  then show ?thesis
  proof cases
    case 1
    show ?thesis unfolding 1 by (simp add: offered_fibra spec_compatible_def)
  next
    case 2
    show ?thesis unfolding 2 by (simp add: offered_antenas spec_compatible_def disj_commute)
  next
    case 3
    show ?thesis unfolding 3 by (simp add: offered_ipoe spec_compatible_def)
  qed
qed

lemma suggested_offered:
  assumes "t \<in> set (map opt_value cell_type_options)"
  shows "getSuggestedAssignment t \<in> set (offered t)"
proof -
  from assms consider "t = ''fibra''" | "t = ''antenas''" | "t = ''hifiber_ipoe''"
    unfolding cell_types by blast
  then show ?thesis
  proof cases
    case 1
    show ?thesis unfolding 1 by (simp add: offered_fibra getSuggestedAssignment_def)
  next
    case 2
    show ?thesis unfolding 2 by (simp add: offered_antenas getSuggestedAssignment_def)
  next
    case 3
    show ?thesis unfolding 3 by (simp add: offered_ipoe getSuggestedAssignment_def)
  qed
qed

lemma reachable_inv:
  assumes "reachable_form f"
  shows "cf_cell_type f \<in> set (map opt_value cell_type_options) \<and> cf_assignment f \<in> set (offered (cf_cell_type f))"
  using assms
proof (induction rule: reachable_form.induct)
  case opened
  show ?case
    by (simp add: cell_type_effect_def EMPTY_def cell_type_options_def getSuggestedAssignment_def offered_fibra)
next
  case (type_chosen f v)
  then show ?case
    using suggested_offered [of v]
    by (simp add: change_cell_type_def cell_type_effect_def)
next
  case (assignment_chosen f v)
  then show ?case by (simp add: change_assignment_def)
qed

lemma change_cell_type_resets:
  assumes "t \<noteq> cf_cell_type f"
  shows "cf_cell_type (change_cell_type t f) = t
    \<and> cf_assignment (change_cell_type t f) = getSuggestedAssignment t"
  using assms by (simp add: change_cell_type_def cell_type_effect_def)

lemma suggested_compatible:
  assumes "t \<in> set (map opt_value cell_type_options)"
  shows "spec_compatible t (getSuggestedAssignment t)"
proof -
  from assms consider "t = ''fibra''" | "t = ''antenas''" | "t = ''hifiber_ipoe''"
    unfolding cell_types by blast
  then show ?thesis
  proof cases
    case 1
    show ?thesis unfolding 1 by (simp add: spec_compatible_def getSuggestedAssignment_def)
  next
    case 2
    show ?thesis unfolding 2 by (simp add: spec_compatible_def getSuggestedAssignment_def)
  next
    case 3
    show ?thesis unfolding 3 by (simp add: spec_compatible_def getSuggestedAssignment_def)
  qed
qed

text \<open>
  Claim C6, as amended. For each of the three cell types the assignments offered are the
  ones the rule allows, and for the type \<open>fibra\<close> also \<open>dhcp_pool\<close> ("DHCP Pool (IPoE)"):
  PPPoE and DHCP for \<open>fibra\<close>, DHCP alone for \<open>hifiber_ipoe\<close>, static addressing and DHCP
  for \<open>antenas\<close>. Changing the type resets the assignment to PPPoE for \<open>fibra\<close>, to DHCP
  for \<open>hifiber_ipoe\<close> and to static addressing for \<open>antenas\<close>, each of which the rule
  allows for the new type. Every form the operator can reach has one of the three types
  and an assignment that the rule allows for it, or is a \<open>fibra\<close> form with \<open>dhcp_pool\<close>.
\<close>

theorem cell_assignment_rule:
  "offered ''fibra'' = [''pppoe_distributed'', ''dhcp_pool'']
   \<and> offered ''hifiber_ipoe'' = [''dhcp_pool'']
   \<and> offered ''antenas'' = [''static_addressing'', ''dhcp_pool'']
   \<and> (\<forall>t \<in> set (map opt_value cell_type_options). \<forall>a.
        a \<in> set (offered t) \<longleftrightarrow> spec_compatible t a \<or> (t = ''fibra'' \<and> a = ''dhcp_pool''))
   \<and> getSuggestedAssignment ''fibra'' = ''pppoe_distributed''
   \<and> getSuggestedAssignment ''hifiber_ipoe'' = ''dhcp_pool''
   \<and> getSuggestedAssignment ''antenas'' = ''static_addressing''
   \<and> (\<forall>t \<in> set (map opt_value cell_type_options). \<forall>f. t \<noteq> cf_cell_type f \<longrightarrow>
        change_cell_type t f = \<lparr>cf_cell_type = t, cf_assignment = getSuggestedAssignment t\<rparr>
        \<and> spec_compatible t (cf_assignment (change_cell_type t f))
        \<and> cf_assignment (change_cell_type t f) \<in> set (offered t))
   \<and> (\<forall>f. reachable_form f \<longrightarrow>
        cf_cell_type f \<in> set (map opt_value cell_type_options)
        \<and> (spec_compatible (cf_cell_type f) (cf_assignment f)
            \<or> (cf_cell_type f = ''fibra'' \<and> cf_assignment f = ''dhcp_pool'')))"
proof -
  note o = offered_fibra offered_ipoe offered_antenas
  have a: "\<forall>t \<in> set (map opt_value cell_type_options). \<forall>a.
       a \<in> set (offered t) \<longleftrightarrow> spec_compatible t a \<or> (t = ''fibra'' \<and> a = ''dhcp_pool'')"
    using offered_iff by blast
  have s: "getSuggestedAssignment ''fibra'' = ''pppoe_distributed''"
    "getSuggestedAssignment ''hifiber_ipoe'' = ''dhcp_pool''"
    "getSuggestedAssignment ''antenas'' = ''static_addressing''"
    by (simp_all add: getSuggestedAssignment_def)
  have b: "\<forall>t \<in> set (map opt_value cell_type_options). \<forall>f. t \<noteq> cf_cell_type f \<longrightarrow>
        change_cell_type t f = \<lparr>cf_cell_type = t, cf_assignment = getSuggestedAssignment t\<rparr>
        \<and> spec_compatible t (cf_assignment (change_cell_type t f))
        \<and> cf_assignment (change_cell_type t f) \<in> set (offered t)"
  proof (intro ballI allI impI)
    fix t and f :: cell_form
    assume t: "t \<in> set (map opt_value cell_type_options)" and n: "t \<noteq> cf_cell_type f"
    have 1: "change_cell_type t f = \<lparr>cf_cell_type = t, cf_assignment = getSuggestedAssignment t\<rparr>"
      using n by (simp add: change_cell_type_def cell_type_effect_def)
    have 2: "spec_compatible t (getSuggestedAssignment t)"
      using t by (rule suggested_compatible)
    have 3: "getSuggestedAssignment t \<in> set (offered t)"
      using t by (rule suggested_offered)
    from 1 2 3 show "change_cell_type t f = \<lparr>cf_cell_type = t, cf_assignment = getSuggestedAssignment t\<rparr>
        \<and> spec_compatible t (cf_assignment (change_cell_type t f))
        \<and> cf_assignment (change_cell_type t f) \<in> set (offered t)"
      by simp
  qed
  have c: "\<forall>f. reachable_form f \<longrightarrow>
        cf_cell_type f \<in> set (map opt_value cell_type_options)
        \<and> (spec_compatible (cf_cell_type f) (cf_assignment f)
            \<or> (cf_cell_type f = ''fibra'' \<and> cf_assignment f = ''dhcp_pool''))"
    using reachable_inv offered_iff by blast
  from o a s b c show ?thesis by (intro conjI)
qed

theorem cell_assignment_rule_witness:
  "''antenas'' \<in> set (map opt_value cell_type_options)
   \<and> ''antenas'' \<noteq> cf_cell_type (cell_type_effect EMPTY)
   \<and> reachable_form (change_cell_type ''antenas'' (cell_type_effect EMPTY))
   \<and> change_cell_type ''antenas'' (cell_type_effect EMPTY)
       = \<lparr>cf_cell_type = ''antenas'', cf_assignment = ''static_addressing''\<rparr>
   \<and> ''static_addressing'' \<in> set (offered ''antenas'')
   \<and> spec_compatible ''antenas'' ''static_addressing''
   \<and> \<not> spec_compatible ''antenas'' ''pppoe_distributed''
   \<and> ''pppoe_distributed'' \<notin> set (offered ''antenas'')"
proof -
  have t: "''antenas'' \<in> set (map opt_value cell_type_options)"
    by (simp add: cell_type_options_def)
  have n: "''antenas'' \<noteq> cf_cell_type (cell_type_effect EMPTY)"
    by (simp add: cell_type_effect_def EMPTY_def)
  have r: "reachable_form (change_cell_type ''antenas'' (cell_type_effect EMPTY))"
    by (rule type_chosen [OF opened t])
  have x: "\<not> spec_compatible ''antenas'' ''pppoe_distributed''"
    by (simp add: spec_compatible_def)
  note rule = cell_assignment_rule
  from rule have s: "getSuggestedAssignment ''antenas'' = ''static_addressing''"
    by blast
  from rule t n have
    "change_cell_type ''antenas'' (cell_type_effect EMPTY)
       = \<lparr>cf_cell_type = ''antenas'', cf_assignment = getSuggestedAssignment ''antenas''\<rparr>
     \<and> spec_compatible ''antenas'' (cf_assignment (change_cell_type ''antenas'' (cell_type_effect EMPTY)))
     \<and> cf_assignment (change_cell_type ''antenas'' (cell_type_effect EMPTY)) \<in> set (offered ''antenas'')"
    by blast
  then have e1: "change_cell_type ''antenas'' (cell_type_effect EMPTY)
       = \<lparr>cf_cell_type = ''antenas'', cf_assignment = ''static_addressing''\<rparr>"
    and e2: "spec_compatible ''antenas'' (cf_assignment (change_cell_type ''antenas'' (cell_type_effect EMPTY)))"
    and e3: "cf_assignment (change_cell_type ''antenas'' (cell_type_effect EMPTY)) \<in> set (offered ''antenas'')"
    unfolding s by blast+
  have e4: "spec_compatible ''antenas'' ''static_addressing''"
    using e2 unfolding e1 by simp
  have e5: "''static_addressing'' \<in> set (offered ''antenas'')"
    using e3 unfolding e1 by simp
  from rule t have "''pppoe_distributed'' \<in> set (offered ''antenas'')
      \<longleftrightarrow> spec_compatible ''antenas'' ''pppoe_distributed''
          \<or> (''antenas'' = ''fibra'' \<and> ''pppoe_distributed'' = ''dhcp_pool'')"
    by blast
  then have y: "''pppoe_distributed'' \<notin> set (offered ''antenas'')"
    using x by simp
  from t n r e1 e4 e5 x y show ?thesis by (intro conjI)
qed

text \<open>The claim as stated fails: for the type \<open>fibra\<close> ("Fibra PPPoE") the select offers
  \<open>dhcp_pool\<close>, which the rule reserves for the IPoE and wireless types, and the operator
  can reach a form with that pair.\<close>

theorem fibra_dhcp_offered: "''dhcp_pool'' \<in> set (offered ''fibra'') \<and> \<not> spec_compatible ''fibra'' ''dhcp_pool''
    \<and> reachable_form \<lparr>cf_cell_type = ''fibra'', cf_assignment = ''dhcp_pool''\<rparr>"
proof -
  have r: "reachable_form (change_assignment ''dhcp_pool'' (cell_type_effect EMPTY))"
    by (rule assignment_chosen [OF opened]) (simp add: cell_type_effect_def EMPTY_def offered_fibra)
  have e: "change_assignment ''dhcp_pool'' (cell_type_effect EMPTY) = \<lparr>cf_cell_type = ''fibra'', cf_assignment = ''dhcp_pool''\<rparr>"
    by (simp add: change_assignment_def cell_type_effect_def EMPTY_def)
  show ?thesis using r unfolding e by (simp add: offered_fibra spec_compatible_def)
qed


section \<open>Rounding of JavaScript numbers\<close>

lemma pow2_powi: "pow2 e = 2 powi e"
  by (simp add: pow2_def power_int_def inverse_eq_divide power_one_over)

lemma pow2_pos: "0 < pow2 e"
  by (simp add: pow2_powi)

lemma pow2_add: "pow2 (a + b) = pow2 a * pow2 b"
  by (simp add: pow2_powi power_int_add)

lemma pow2_numeral: "pow2 (numeral k) = 2 ^ numeral k" and pow2_1: "pow2 1 = 2"
  by (simp_all add: pow2_def)

lemma pow2_Suc: "pow2 (e + 1) = 2 * pow2 e"
  unfolding pow2_add pow2_1 by simp

lemma pow2_nat: "0 \<le> k \<Longrightarrow> pow2 k = 2 ^ nat k"
  by (simp add: pow2_def)

lemma bitlen_rat_bounds:
  assumes "0 < n"
  shows "pow2 (bitlen n - 1) \<le> of_int n" and "of_int n < pow2 (bitlen n)"
proof -
  from assms have b: "1 \<le> bitlen n"
    using bitlen_eq_zero_iff [of n] bitlen_nonneg [of n] by linarith
  from bitlen_bounds [OF assms] have l: "2 ^ nat (bitlen n - 1) \<le> n" and u: "n < 2 ^ nat (bitlen n)"
    by simp_all
  have "(of_int (2 ^ nat (bitlen n - 1)) :: rat) \<le> of_int n"
    using l of_int_le_iff by blast
  then show "pow2 (bitlen n - 1) \<le> of_int n"
    using b by (simp add: pow2_nat)
  have "(of_int n :: rat) < of_int (2 ^ nat (bitlen n))"
    using u of_int_less_iff by blast
  then show "of_int n < pow2 (bitlen n)"
    using b by (simp add: pow2_nat)
qed

lemma expo_pre:
  assumes "0 < x" and "quotient_of x = (n, d)"
  shows "2 ^ 52 < x / pow2 (bitlen n - bitlen d - 53)" and "x / pow2 (bitlen n - bitlen d - 53) < 2 ^ 54"
proof -
  have d: "0 < d" using assms(2) quotient_of_denom_pos by blast
  have x: "x = of_int n / of_int d" using assms(2) quotient_of_div by blast
  have n: "0 < n" using assms(1) d x by (simp add: zero_less_divide_iff)
  let ?e = "bitlen n - bitlen d - 53"
  have e1: "pow2 (bitlen n - 1) = pow2 ?e * 2 ^ 52 * pow2 (bitlen d)"
  proof -
    have "bitlen n - 1 = (?e + 52) + bitlen d" by simp
    then have "pow2 (bitlen n - 1) = pow2 (?e + 52) * pow2 (bitlen d)"
      by (metis pow2_add)
    then show ?thesis unfolding pow2_add pow2_numeral by simp
  qed
  have e2: "pow2 (bitlen n) = pow2 ?e * 2 ^ 54 * pow2 (bitlen d - 1)"
  proof -
    have "bitlen n = (?e + 54) + (bitlen d - 1)" by simp
    then have "pow2 (bitlen n) = pow2 (?e + 54) * pow2 (bitlen d - 1)"
      by (metis pow2_add)
    then show ?thesis unfolding pow2_add pow2_numeral by simp
  qed
  have D: "0 < (of_int d :: rat)" using d by simp
  have pe: "0 < pow2 ?e" by (rule pow2_pos)
  have "pow2 ?e * 2 ^ 52 * of_int d < pow2 ?e * 2 ^ 52 * pow2 (bitlen d)"
    using bitlen_rat_bounds(2) [OF d] pe by simp
  also have "\<dots> \<le> of_int n" using bitlen_rat_bounds(1) [OF n] e1 by simp
  finally have "2 ^ 52 * pow2 ?e < of_int n / of_int d"
    using D by (simp add: pos_less_divide_eq mult.commute)
  then have "2 ^ 52 * pow2 ?e < x"
    unfolding x .
  then show "2 ^ 52 < x / pow2 ?e"
    using pe by (simp add: pos_less_divide_eq)
  have "of_int n < pow2 ?e * 2 ^ 54 * pow2 (bitlen d - 1)"
    using bitlen_rat_bounds(2) [OF n] e2 by simp
  also have "\<dots> \<le> pow2 ?e * 2 ^ 54 * of_int d"
    using bitlen_rat_bounds(1) [OF d] pe by simp
  finally have "of_int n / of_int d < 2 ^ 54 * pow2 ?e"
    using D by (simp add: pos_divide_less_eq mult.commute)
  then have "x < 2 ^ 54 * pow2 ?e"
    unfolding x .
  then show "x / pow2 ?e < 2 ^ 54"
    using pe by (simp add: pos_divide_less_eq)
qed

lemma expo_bounds:
  assumes "0 < x"
  shows "2 ^ 52 \<le> x / pow2 (expo x)" and "x / pow2 (expo x) < 2 ^ 53"
proof -
  obtain n d where q: "quotient_of x = (n, d)" by (cases "quotient_of x")
  let ?e = "bitlen n - bitlen d - 53"
  note b = expo_pre [OF assms q]
  show "2 ^ 52 \<le> x / pow2 (expo x)"
  proof (cases "x / pow2 ?e < 2 ^ 53")
    case True
    then have "expo x = ?e" by (simp add: expo_def q)
    then show ?thesis using b(1) by simp
  next
    case False
    then have ex: "expo x = ?e + 1" by (simp add: expo_def q)
    show ?thesis unfolding ex pow2_Suc using False by simp
  qed
  show "x / pow2 (expo x) < 2 ^ 53"
  proof (cases "x / pow2 ?e < 2 ^ 53")
    case True
    then have "expo x = ?e" by (simp add: expo_def q)
    then show ?thesis using True by simp
  next
    case False
    then have ex: "expo x = ?e + 1" by (simp add: expo_def q)
    show ?thesis unfolding ex pow2_Suc using b(2) by simp
  qed
qed


lemma rne_err: "\<bar>of_int (rne q) - q\<bar> \<le> 1 / 2"
proof -
  have "of_int \<lfloor>q\<rfloor> \<le> q" and "q < of_int \<lfloor>q\<rfloor> + 1"
    by linarith+
  then show ?thesis
    by (simp add: rne_def Let_def)
qed

lemma fl_0: "fl 0 = 0"
  by (simp add: fl_def)

lemma fl_uminus: "fl (- x) = - fl x"
  by (simp add: fl_def Let_def)

lemma fl_pos_eq:
  assumes "0 < x"
  shows "fl x = of_int (rne (x / pow2 (expo x))) * pow2 (expo x)"
  using assms by (simp add: fl_def Let_def)

lemma fl_err_pos:
  assumes "0 < x"
  shows "\<bar>fl x - x\<bar> \<le> x / 2 ^ 53"
proof -
  let ?p = "pow2 (expo x)"
  let ?q = "x / ?p"
  have p: "0 < ?p" by (rule pow2_pos)
  have x: "x = ?q * ?p" using p by simp
  have "fl x - x = (of_int (rne ?q) - ?q) * ?p"
    using p by (simp add: fl_pos_eq [OF assms] algebra_simps)
  then have "\<bar>fl x - x\<bar> = \<bar>of_int (rne ?q) - ?q\<bar> * ?p"
    using p by (simp add: abs_mult)
  also have "\<dots> \<le> (1 / 2) * ?p"
    using rne_err [of ?q] p by (simp add: mult_right_mono)
  also have "\<dots> \<le> x / 2 ^ 53"
  proof -
    from expo_bounds(1) [OF assms] p have "2 ^ 52 * ?p \<le> x"
      by (simp add: pos_le_divide_eq)
    then show ?thesis by simp
  qed
  finally show ?thesis .
qed

lemma fl_err: "\<bar>fl x - x\<bar> \<le> \<bar>x\<bar> / 2 ^ 53"
proof -
  consider "0 < x" | "x = 0" | "x < 0" by linarith
  then show ?thesis
  proof cases
    case 1
    then show ?thesis using fl_err_pos [OF 1] by simp
  next
    case 2
    then show ?thesis by (simp add: fl_0)
  next
    case 3
    then have "0 < - x" by simp
    from fl_err_pos [OF this] show ?thesis
      using 3 by (simp add: fl_uminus abs_minus_commute)
  qed
qed

lemma fl_pos:
  assumes "0 < x"
  shows "0 < fl x"
proof -
  have "\<bar>fl x - x\<bar> \<le> x / 2 ^ 53" by (rule fl_err_pos [OF assms])
  moreover have "x / 2 ^ 53 < x" using assms by simp
  ultimately show ?thesis by linarith
qed

lemma fl_neg: "x < 0 \<Longrightarrow> fl x < 0"
  using fl_pos [of "- x"] by (simp add: fl_uminus)

lemma fl_pos_iff: "0 < fl x \<longleftrightarrow> 0 < x"
  using fl_pos [of x] fl_neg [of x] fl_0 by (cases "0 < x"; cases "x = 0"; force)

lemma fl_nonpos: "x \<le> 0 \<Longrightarrow> fl x \<le> 0"
  using fl_pos_iff [of x] by simp

lemma rne_of_int: "rne (of_int k) = k"
  by (simp add: rne_def)

lemma fl_int_exact_pos:
  assumes "0 < n" and "n \<le> 2 ^ 53"
  shows "fl (of_int n) = of_int n"
proof -
  define x :: rat where "x = of_int n"
  define e where "e = expo x"
  have x0: "0 < x" using assms(1) by (simp add: x_def)
  have "(of_int n :: rat) \<le> of_int (2 ^ 53)" using assms(2) of_int_le_iff by blast
  then have xb: "x \<le> 2 ^ 53" by (simp add: x_def)
  have lo: "2 ^ 52 \<le> x / pow2 e" and hi: "x / pow2 e < 2 ^ 53"
    unfolding e_def using expo_bounds [OF x0] by simp_all
  have p: "0 < pow2 e" by (rule pow2_pos)
  have lo': "2 ^ 52 * pow2 e \<le> x" using lo p by (simp add: pos_le_divide_eq)
  have "\<exists>k. x / pow2 e = of_int k"
  proof -
    consider "2 \<le> e" | "e = 1" | "e \<le> 0" by linarith
    then show ?thesis
    proof cases
      case 1
      then have "(2::rat) ^ 2 \<le> 2 ^ nat e"
        by (intro power_increasing) simp_all
      then have "4 \<le> pow2 e" using 1 by (simp add: pow2_nat)
      then have "2 ^ 52 * 4 \<le> 2 ^ 52 * pow2 e" by simp
      with lo' xb show ?thesis by simp
    next
      case 2
      then have "pow2 e = 2" by (simp add: pow2_1)
      with lo' xb have "x = 2 ^ 53" by simp
      then have "x / pow2 e = of_int (2 ^ 52)" using \<open>pow2 e = 2\<close> by simp
      then show ?thesis by blast
    next
      case 3
      then have "pow2 e = 1 / 2 ^ nat (- e)"
        by (cases "e = 0") (simp_all add: pow2_def)
      then have "x / pow2 e = of_int (n * 2 ^ nat (- e))"
        by (simp add: x_def)
      then show ?thesis by blast
    qed
  qed
  then obtain k where k: "x / pow2 e = of_int k" by blast
  have "fl x = of_int (rne (x / pow2 e)) * pow2 e"
    unfolding e_def by (rule fl_pos_eq [OF x0])
  also have "\<dots> = (x / pow2 e) * pow2 e"
    unfolding k rne_of_int ..
  also have "\<dots> = x" using p by simp
  finally show ?thesis by (simp add: x_def)
qed

lemma fl_int_exact:
  assumes "\<bar>n\<bar> \<le> 2 ^ 53"
  shows "fl (of_int n) = of_int n"
proof -
  consider "0 < n" | "n = 0" | "n < 0" by linarith
  then show ?thesis
  proof cases
    case 1
    then show ?thesis using assms by (simp add: fl_int_exact_pos)
  next
    case 2
    then show ?thesis by (simp add: fl_0)
  next
    case 3
    then have "0 < - n" and "- n \<le> 2 ^ 53" using assms by simp_all
    then have "fl (of_int (- n)) = of_int (- n)" by (rule fl_int_exact_pos)
    then show ?thesis by (simp add: fl_uminus)
  qed
qed

lemma Number_of_int_exact: "\<bar>i\<bar> \<le> 2 ^ 53 \<Longrightarrow> Number_of_int i = of_int i"
  by (simp add: Number_of_int_def fl_int_exact)

lemma fl_bounds:
  assumes "0 < x"
  shows "x * (1 - 1 / 2 ^ 53) \<le> fl x" and "fl x \<le> x * (1 + 1 / 2 ^ 53)"
proof -
  have "\<bar>fl x - x\<bar> \<le> x / 2 ^ 53" by (rule fl_err_pos [OF assms])
  then have "x - x / 2 ^ 53 \<le> fl x" and "fl x \<le> x + x / 2 ^ 53" by linarith+
  then show "x * (1 - 1 / 2 ^ 53) \<le> fl x" and "fl x \<le> x * (1 + 1 / 2 ^ 53)"
    by (simp_all add: algebra_simps)
qed

lemma quotient_close:
  assumes A: "0 < A" and D: "0 < D"
  shows "\<bar>fl (fl A / fl (fl D / 1000)) - A / (D / 1000)\<bar> \<le> (A / (D / 1000)) / 2 ^ 50"
proof -
  define c0 :: rat where "c0 = 1 - 1 / 2 ^ 53"
  define c1 :: rat where "c1 = 1 + 1 / 2 ^ 53"
  define a where "a = fl A"
  define d where "d = fl D"
  define t where "t = fl (d / 1000)"
  define q where "q = fl (a / t)"
  define E where "E = A / (D / 1000)"
  define r1 where "r1 = (c1 * c1) / (c0 * c0)"
  define r0 where "r0 = (c0 * c0) / (c1 * c1)"
  have c0: "0 < c0" and c1: "0 < c1" by (simp_all add: c0_def c1_def)
  have a0: "0 < a" unfolding a_def using A by (rule fl_pos)
  have d0: "0 < d" unfolding d_def using D by (rule fl_pos)
  have d1000: "0 < d / 1000" using d0 by simp
  have t0: "0 < t" unfolding t_def using d1000 by (rule fl_pos)
  have at0: "0 < a / t" using a0 t0 by simp
  have E0: "0 < E" using A D by (simp add: E_def)
  have al: "A * c0 \<le> a" and au: "a \<le> A * c1"
    unfolding a_def c0_def c1_def using fl_bounds [OF A] by simp_all
  have dl: "D * c0 \<le> d" and du: "d \<le> D * c1"
    unfolding d_def c0_def c1_def using fl_bounds [OF D] by simp_all
  have tl: "(d / 1000) * c0 \<le> t" and tu: "t \<le> (d / 1000) * c1"
    unfolding t_def c0_def c1_def using fl_bounds [OF d1000] by simp_all
  have ql: "(a / t) * c0 \<le> q" and qu: "q \<le> (a / t) * c1"
    unfolding q_def c0_def c1_def using fl_bounds [OF at0] by simp_all
  have "(D * c0 / 1000) * c0 \<le> (d / 1000) * c0"
    using dl c0 by (simp add: mult_right_mono divide_right_mono)
  with tl have tl': "D / 1000 * (c0 * c0) \<le> t" by (simp add: algebra_simps)
  have "(d / 1000) * c1 \<le> (D * c1 / 1000) * c1"
    using du c1 by (simp add: mult_right_mono divide_right_mono)
  with tu have tu': "t \<le> D / 1000 * (c1 * c1)" by (simp add: algebra_simps)
  have low0: "0 < D / 1000 * (c0 * c0)" using D c0 by simp
  have "a / t \<le> (A * c1) / (D / 1000 * (c0 * c0))"
    using au tl' low0 a0 by (intro frac_le) simp_all
  then have "(a / t) * c1 \<le> (A * c1) / (D / 1000 * (c0 * c0)) * c1"
    by (rule mult_right_mono) (use c1 in simp)
  also have "\<dots> = E * r1"
    by (simp add: E_def r1_def)
  finally have up: "q \<le> E * r1" using qu by linarith
  have "(A * c0) / (D / 1000 * (c1 * c1)) \<le> a / t"
    using al tu' t0 a0 by (intro frac_le) simp_all
  then have "(A * c0) / (D / 1000 * (c1 * c1)) * c0 \<le> (a / t) * c0"
    by (rule mult_right_mono) (use c0 in simp)
  moreover have "(A * c0) / (D / 1000 * (c1 * c1)) * c0 = E * r0"
    by (simp add: E_def r0_def)
  ultimately have lw: "E * r0 \<le> q" using ql by linarith
  have n1: "r1 \<le> 1 + 1 / 2 ^ 50" by (simp add: r1_def c0_def c1_def)
  have n0: "1 - 1 / 2 ^ 50 \<le> r0" by (simp add: r0_def c0_def c1_def)
  have E0': "0 \<le> E" using E0 by simp
  have m1: "E * r1 \<le> E * (1 + 1 / 2 ^ 50)"
    using n1 E0' by (rule mult_left_mono)
  have m0: "E * (1 - 1 / 2 ^ 50) \<le> E * r0"
    using n0 E0' by (rule mult_left_mono)
  have e1: "E * (1 + 1 / 2 ^ 50) = E + E / 2 ^ 50" and e0: "E * (1 - 1 / 2 ^ 50) = E - E / 2 ^ 50"
    by (simp_all add: algebra_simps)
  from up m1 e1 have up': "q \<le> E + E / 2 ^ 50" by linarith
  from lw m0 e0 have lw': "E - E / 2 ^ 50 \<le> q" by linarith
  from up' lw' have "\<bar>q - E\<bar> \<le> E / 2 ^ 50" by linarith
  then show ?thesis
    by (simp add: q_def a_def t_def d_def E_def)
qed


section \<open>The percentage helpers\<close>

lemma pct_product_close:
  assumes u0: "0 \<le> used" and ub: "used < 2 ^ 44" and t: "0 < tot"
  shows "\<bar>jmul (jdiv (of_int used) (of_int tot)) 100 - 100 * of_int used / of_int tot\<bar>
           < 1 / (2 * of_int tot)"
proof -
  define U :: rat where "U = of_int used"
  define T :: rat where "T = of_int tot"
  define q where "q = U / T"
  define a where "a = fl q"
  define b where "b = fl (a * 100)"
  define K :: rat where "K = 100 * (1 + 1 / 2 ^ 53) / 2 ^ 53 + 100 / 2 ^ 53"
  have T: "0 < T" using t by (simp add: T_def)
  have U0: "0 \<le> U" using u0 by (simp add: U_def)
  have "used \<le> 2 ^ 44" using ub by simp
  then have "(of_int used :: rat) \<le> of_int (2 ^ 44)" using of_int_le_iff by blast
  then have Ub: "U \<le> 2 ^ 44" by (simp add: U_def)
  have q0: "0 \<le> q" using T U0 by (simp add: q_def)
  have a_err: "\<bar>a - q\<bar> \<le> q / 2 ^ 53"
    using fl_err [of q] q0 by (simp add: a_def)
  have a_bd: "\<bar>a\<bar> \<le> q + q / 2 ^ 53"
    using a_err q0 by linarith
  have "\<bar>b - a * 100\<bar> \<le> \<bar>a * 100\<bar> / 2 ^ 53"
    using fl_err [of "a * 100"] by (simp add: b_def)
  also have "\<dots> = 100 * \<bar>a\<bar> / 2 ^ 53" by (simp add: abs_mult)
  also have "\<dots> \<le> 100 * (q + q / 2 ^ 53) / 2 ^ 53"
    using a_bd by (simp add: divide_right_mono)
  finally have b_err: "\<bar>b - a * 100\<bar> \<le> 100 * (q + q / 2 ^ 53) / 2 ^ 53" .
  have "a * 100 - 100 * q = 100 * (a - q)"
    by (simp add: algebra_simps)
  then have "\<bar>a * 100 - 100 * q\<bar> = \<bar>100 * (a - q)\<bar>"
    by (rule arg_cong)
  also have "\<dots> = 100 * \<bar>a - q\<bar>"
    unfolding abs_mult by simp
  finally have a100: "\<bar>a * 100 - 100 * q\<bar> \<le> 100 * (q / 2 ^ 53)"
    using a_err by simp
  have "\<bar>b - 100 * q\<bar> \<le> \<bar>b - a * 100\<bar> + \<bar>a * 100 - 100 * q\<bar>" by linarith
  also have "\<dots> \<le> 100 * (q + q / 2 ^ 53) / 2 ^ 53 + 100 * (q / 2 ^ 53)"
    using b_err a100 by linarith
  also have "\<dots> = q * K" by (simp add: K_def algebra_simps)
  finally have bq: "\<bar>b - 100 * q\<bar> \<le> q * K" .
  have K0: "0 < K" by (simp add: K_def)
  have "2 ^ 44 * K < 1 / 2" by (simp add: K_def)
  moreover have "U * K \<le> 2 ^ 44 * K" using Ub K0 by (simp add: mult_right_mono)
  ultimately have UK: "U * K < 1 / 2" by linarith
  have "q * K = (U * K) / T" by (simp add: q_def)
  also have "\<dots> < (1 / 2) / T" using UK T by (rule divide_strict_right_mono)
  finally have "q * K < 1 / (2 * T)" by simp
  with bq have "\<bar>b - 100 * q\<bar> < 1 / (2 * T)" by linarith
  then show ?thesis
    by (simp add: b_def a_def q_def U_def T_def jmul_def jdiv_def)
qed


lemma half_step:
  assumes t: "0 < tot"
  shows "100 * of_int used / of_int tot + 1 / 2
       = (of_int ((200 * used + tot) div (2 * tot)) :: rat)
         + of_int ((200 * used + tot) mod (2 * tot)) / (2 * of_int tot)"
proof -
  let ?n = "200 * used + tot"
  let ?c = "2 * tot"
  have c: "(of_int ?c :: rat) \<noteq> 0" using t by simp
  have "?n = ?c * (?n div ?c) + ?n mod ?c" by simp
  then have "(of_int ?n :: rat) = of_int (?c * (?n div ?c) + ?n mod ?c)" by simp
  then have "(of_int ?n :: rat) / of_int ?c
      = (of_int ?c * of_int (?n div ?c) + of_int (?n mod ?c)) / of_int ?c"
    by (simp only: of_int_add of_int_mult)
  also have "\<dots> = of_int (?n div ?c) + of_int (?n mod ?c) / of_int ?c"
    using c by (simp add: add_divide_distrib)
  finally have "(of_int ?n :: rat) / of_int ?c = of_int (?n div ?c) + of_int (?n mod ?c) / of_int ?c" .
  moreover have "100 * of_int used / of_int tot + 1 / 2 = (of_int ?n :: rat) / of_int ?c"
    using t by (simp add: field_simps)
  ultimately show ?thesis by simp
qed

lemma round_exact:
  assumes t: "0 < tot"
  shows "round (100 * of_int used / of_int tot :: rat) = (200 * used + tot) div (2 * tot)"
proof -
  let ?m = "(200 * used + tot) mod (2 * tot)"
  have m0: "0 \<le> ?m" and m1: "?m < 2 * tot" using t by simp_all
  have T: "0 < (2 * of_int tot :: rat)" using t by simp
  have "(of_int ?m :: rat) < of_int (2 * tot)" using m1 of_int_less_iff by blast
  then have f1: "(of_int ?m :: rat) / (2 * of_int tot) < 1" using T by (simp add: pos_divide_less_eq)
  have f0: "0 \<le> (of_int ?m :: rat) / (2 * of_int tot)" using m0 T by simp
  show ?thesis
    unfolding round_def half_step [OF t]
    using f0 f1 by (simp add: floor_unique)
qed

lemma calcPct_cases:
  assumes u0: "0 \<le> used" and ub: "used < 2 ^ 44" and t: "0 < tot"
  shows "(200 * used + tot) mod (2 * tot) \<noteq> 0 \<Longrightarrow>
           calcPct (of_int used) (of_int tot) = round (100 * of_int used / of_int tot :: rat)"
    and "round (100 * of_int used / of_int tot :: rat) - 1 \<le> calcPct (of_int used) (of_int tot)"
    and "calcPct (of_int used) (of_int tot) \<le> round (100 * of_int used / of_int tot :: rat)"
proof -
  define b where "b = jmul (jdiv (of_int used) (of_int tot)) 100"
  define y :: rat where "y = 100 * of_int used / of_int tot"
  define r where "r = (200 * used + tot) div (2 * tot)"
  define m where "m = (200 * used + tot) mod (2 * tot)"
  define h :: rat where "h = 1 / (2 * of_int tot)"
  have c: "calcPct (of_int used) (of_int tot) = \<lfloor>b + 1 / 2\<rfloor>"
    using t by (simp add: calcPct_def Math_round_def b_def)
  have rd: "round y = r" unfolding y_def r_def by (rule round_exact [OF t])
  have close: "\<bar>b - y\<bar> < h"
    unfolding b_def y_def h_def by (rule pct_product_close [OF u0 ub t])
  have yh: "y + 1 / 2 = of_int r + of_int m * h"
    unfolding y_def r_def m_def h_def using half_step [OF t, of used] by simp
  have h0: "0 < h" using t by (simp add: h_def)
  have m0: "0 \<le> m" and m1: "m < 2 * tot" using t by (simp_all add: m_def)
  have "m + 1 \<le> 2 * tot" using m1 by simp
  then have "(of_int (m + 1) :: rat) \<le> of_int (2 * tot)" using of_int_le_iff by blast
  then have "(of_int m + 1) * h \<le> 2 * of_int tot * h" using h0 by (simp add: mult_right_mono)
  moreover have "2 * of_int tot * h = 1" using t by (simp add: h_def)
  ultimately have mh1: "of_int m * h + h \<le> 1" by (simp add: algebra_simps)
  have mh0: "0 \<le> of_int m * h" using m0 h0 by simp
  have h1: "h \<le> 1"  using mh0 mh1 by linarith
  have up: "b + 1 / 2 < of_int r + 1" using close yh mh1 by linarith
  have lo: "of_int r - 1 \<le> b + 1 / 2" using close yh mh0 h1 by linarith
  show "calcPct (of_int used) (of_int tot) \<le> round (100 * of_int used / of_int tot :: rat)"
    unfolding c rd [unfolded y_def] floor_le_iff using up .
  show "round (100 * of_int used / of_int tot :: rat) - 1 \<le> calcPct (of_int used) (of_int tot)"
    unfolding c rd [unfolded y_def] le_floor_iff of_int_diff of_int_1 using lo .
  assume "(200 * used + tot) mod (2 * tot) \<noteq> 0"
  then have "1 \<le> m" using m0 by (simp add: m_def)
  then have "(of_int 1 :: rat) \<le> of_int m" using of_int_le_iff by blast
  then have "h \<le> of_int m * h" using h0 by simp
  then have "of_int r \<le> b + 1 / 2" using close yh by linarith
  then have "\<lfloor>b + 1 / 2\<rfloor> = r" using up by (simp add: floor_unique)
  then show "calcPct (of_int used) (of_int tot) = round (100 * of_int used / of_int tot :: rat)"
    unfolding c rd [unfolded y_def] .
qed

lemma usedPct_calcPct: "usedPct u t = calcPct u t"
  by (simp add: usedPct_def calcPct_def)

text \<open>
  For counts \<open>0 \<le> used < 2^44\<close>: the percentage is 0 when the total is 0 (or negative),
  so nothing is divided by zero; when the total is positive it is
  \<open>round (100 * used / total)\<close> unless \<open>100 * used / total\<close> lies exactly half-way
  between two integers, and in every case it is that rounded value or one less. The
  expression of CellDetailPage computes the same number.
\<close>

lemma calcPct_off_half_way:
  assumes "0 \<le> used" and "used < 2 ^ 44"
  shows "(tot \<le> 0 \<longrightarrow> calcPct (of_int used) (of_int tot) = 0)
    \<and> (0 < tot \<and> (200 * used + tot) mod (2 * tot) \<noteq> 0 \<longrightarrow>
          calcPct (of_int used) (of_int tot) = round (100 * of_int used / of_int tot :: rat))
    \<and> (0 < tot \<longrightarrow>
          round (100 * of_int used / of_int tot :: rat) - 1 \<le> calcPct (of_int used) (of_int tot)
          \<and> calcPct (of_int used) (of_int tot) \<le> round (100 * of_int used / of_int tot :: rat))
    \<and> usedPct (of_int used) (of_int tot) = calcPct (of_int used) (of_int tot)"
proof -
  have z: "tot \<le> 0 \<Longrightarrow> calcPct (of_int used) (of_int tot) = 0"
    by (simp add: calcPct_def)
  note c = calcPct_cases [OF assms]
  from z c usedPct_calcPct show ?thesis by blast
qed

text \<open>The example of the specification, an empty pool, and three half-way values at
  which the helper rounds up as \<open>round\<close> does.\<close>

lemma calcPct_examples:
  "calcPct 2 6 = 33 \<and> round (100 * 2 / 6 :: rat) = 33 \<and> usedPct 2 6 = 33 \<and> calcPct 0 0 = 0"
  "calcPct 1 8 = 13 \<and> round (100 * 1 / 8 :: rat) = 13"
  "calcPct 29 40 = 73 \<and> round (100 * 29 / 40 :: rat) = 73"
  "calcPct 1 200 = 1 \<and> round (100 * 1 / 200 :: rat) = 1"
  by code_simp+

text \<open>
  Claim C2 says that the percentage is \<open>round (100 * used / total)\<close> whenever the total
  is positive. The helper departs from it: 23 used out of 40 is 57.5 percent, which rounds
  to 58, but the helper divides first, the quotient 23/40 is not a binary fraction, and
  its product with 100 falls just below 57.5, so the helper, and the expression of
  CellDetailPage with it, return 57.
\<close>

theorem calcPct_half_way:
  "calcPct 23 40 = 57 \<and> usedPct 23 40 = 57 \<and> round (100 * 23 / 40 :: rat) = 58"
  by code_simp


section \<open>The traffic monitor\<close>

text \<open>The keys of a snapshot are the names of the interfaces of the reply, except
  \<open>__proto__\<close>.\<close>

lemma own_fold_assign:
  "own (fold (\<lambda>iface obj. assign (name iface) (g iface) obj) ifaces obj0) nm \<noteq> None
     \<longleftrightarrow> own obj0 nm \<noteq> None \<or> (nm \<in> name ` set ifaces \<and> nm \<noteq> ''__proto__'')"
  by (induction ifaces arbitrary: obj0) (auto simp add: assign_def)

lemma own_mkNewData:
  "own (mkNewData ifaces) nm \<noteq> None \<longleftrightarrow> nm \<in> name ` set ifaces \<and> nm \<noteq> ''__proto__''"
  unfolding mkNewData_def own_fold_assign by (simp add: empty_object_def)

text \<open>The elapsed time is positive exactly when the poll is later than the previous one.\<close>

lemma elapsed_pos_iff: "0 < jsub (of_int now) (of_int t0) \<longleftrightarrow> t0 < now"
  unfolding jsub_def fl_pos_iff by simp

lemma dt_pos_iff: "0 < jdiv (jsub (of_int now) (of_int t0)) 1000 \<longleftrightarrow> t0 < now"
proof -
  have "0 < jdiv (jsub (of_int now) (of_int t0)) 1000 \<longleftrightarrow> 0 < jsub (of_int now) (of_int t0) / 1000"
    unfolding jdiv_def by (rule fl_pos_iff)
  also have "\<dots> \<longleftrightarrow> 0 < jsub (of_int now) (of_int t0)" by simp
  also have "\<dots> \<longleftrightarrow> t0 < now" by (rule elapsed_pos_iff)
  finally show ?thesis .
qed

lemma poll_state:
  "traffic (fetchTraffic st (Inr ifaces) now) = mkNewData ifaces"
  "prevRef (fetchTraffic st (Inr ifaces) now) = mkNewData ifaces"
  "prevTimeRef (fetchTraffic st (Inr ifaces) now) = Some now"
  by (simp_all add: fetchTraffic_def Let_def)

lemma failed_poll: "fetchTraffic st (Inl err) now = st"
  by (simp add: fetchTraffic_def)

text \<open>The rates of a poll, case by case.\<close>

lemma rates_no_previous_time:
  assumes "prevTimeRef st = None"
  shows "rates (fetchTraffic st (Inr ifaces) now) = Map.empty"
  using assms by (simp add: fetchTraffic_def mkNewRates_def Let_def)

lemma rates_not_later:
  assumes "prevTimeRef st = Some t0" and "t0 = 0 \<or> now \<le> t0"
  shows "rates (fetchTraffic st (Inr ifaces) now) = Map.empty"
  using assms by (auto simp add: fetchTraffic_def mkNewRates_def Let_def elapsed_pos_iff)

lemma rates_later:
  assumes "prevTimeRef st = Some t0" and "t0 \<noteq> 0" and "t0 < now"
  shows "rates (fetchTraffic st (Inr ifaces) now) nm =
      (case own (mkNewData ifaces) nm of
         None \<Rightarrow> None
       | Some n \<Rightarrow>
           if truthy (get_sample (prevRef st) nm)
           then Some (mkRate (jdiv (jsub (of_int now) (of_int t0)) 1000) (get_sample (prevRef st) nm) n)
           else None)"
  using assms
  by (simp add: fetchTraffic_def mkNewRates_def Let_def elapsed_pos_iff split: option.splits)

lemma get_sample_own: "own obj nm = Some p \<Longrightarrow> get_sample obj nm = PSample p"
  by (simp add: get_sample_def)

text \<open>The names a snapshot object inherits from its prototype chain.\<close>

lemma proto_is_prototype_name: "''__proto__'' \<in> set object_prototype_names"
  by (simp add: object_prototype_names_def)

lemma get_sample_undefined:
  assumes "own obj nm = None" and "nm \<notin> set (inherited obj)"
  shows "get_sample obj nm = PUndefined"
proof -
  have n: "nm \<notin> set object_prototype_names"
    using assms(2) by (simp add: inherited_def)
  then have p: "nm \<noteq> ''__proto__''"
    using proto_is_prototype_name by blast
  show ?thesis
  proof (cases "proto obj")
    case None
    then show ?thesis
      using assms(1) n by (simp add: get_sample_def object_prototype_get_def)
  next
    case (Some s)
    then have "nm \<noteq> ''tx'' \<and> nm \<noteq> ''rx'' \<and> nm \<noteq> ''running''"
      using assms(2) by (simp add: inherited_def)
    then show ?thesis
      using assms(1) n p Some by (simp add: get_sample_def object_prototype_get_def)
  qed
qed

lemma not_inherited_not_prototype:
  "nm \<notin> set (inherited obj) \<Longrightarrow> nm \<notin> set object_prototype_names"
  by (simp add: inherited_def)

lemma rates_present:
  assumes "prevTimeRef st = Some t0" and "t0 \<noteq> 0" and "t0 < now"
    and "own (prevRef st) nm = Some p" and "own (mkNewData ifaces) nm = Some n"
  shows "rates (fetchTraffic st (Inr ifaces) now) nm
      = Some (mkRate (jdiv (jsub (of_int now) (of_int t0)) 1000) (PSample p) n)"
  using rates_later [OF assms(1,2,3)] assms(4,5)
  by (simp add: get_sample_own truthy_def)

lemma rates_absent:
  assumes "prevTimeRef st = None \<or> own (prevRef st) nm = None"
    and "nm \<notin> set (inherited (prevRef st))"
  shows "rates (fetchTraffic st (Inr ifaces) now) nm = None"
proof (cases "prevTimeRef st")
  case None
  then show ?thesis by (simp add: rates_no_previous_time)
next
  case (Some t0)
  with assms(1) have o: "own (prevRef st) nm = None" by simp
  have u: "get_sample (prevRef st) nm = PUndefined"
    using o assms(2) by (rule get_sample_undefined)
  show ?thesis
  proof (cases "t0 \<noteq> 0 \<and> t0 < now")
    case True
    then show ?thesis
      using rates_later [OF Some, of now ifaces nm] u
      by (simp add: truthy_def split: option.splits)
  next
    case False
    then have "t0 = 0 \<or> now \<le> t0" by linarith
    then show ?thesis using rates_not_later [OF Some] by simp
  qed
qed

lemma row_calculando:
  assumes "own (traffic st) nm = Some s" and "rates st nm = None"
    and "nm \<notin> set object_prototype_names"
  shows "traffic_row st nm = Some Calculando"
  using assms by (simp add: traffic_row_def get_rate_def)

lemma row_rates:
  assumes "own (traffic st) nm = Some s" and "rates st nm = Some r"
  shows "traffic_row st nm = Some (ShowRates (Some (txBps r)) (Some (rxBps r)))"
  using assms by (simp add: traffic_row_def get_rate_def)

text \<open>The rate of one direction against the exact quotient.\<close>

lemma rate_of_sample:
  "rate_of (jdiv (jsub (of_int now) (of_int t0)) 1000) c (Num pv)
     = Num (Math_max 0 (fl (fl (c - pv) / fl (fl (of_int now - of_int t0) / 1000))))"
  by (simp add: rate_of_def jdiv_def jsub_def)

lemma speed_nonneg: "0 \<le> Math_max 0 x"
  by (simp add: Math_max_def)

lemma speed_zero:
  assumes "t0 < now" and "c \<le> pv"
  shows "Math_max 0 (fl (fl (c - pv) / fl (fl (of_int now - of_int t0) / 1000))) = 0"
proof -
  have "0 < fl (fl (of_int now - of_int t0) / 1000)"
    using assms(1) dt_pos_iff [of now t0] by (simp add: jdiv_def jsub_def)
  moreover have "fl (c - pv) \<le> 0" using assms(2) by (intro fl_nonpos) simp
  ultimately have "fl (c - pv) / fl (fl (of_int now - of_int t0) / 1000) \<le> 0"
    by (simp add: divide_le_0_iff)
  then have "fl (fl (c - pv) / fl (fl (of_int now - of_int t0) / 1000)) \<le> 0"
    by (rule fl_nonpos)
  then show ?thesis by (simp add: Math_max_def)
qed

lemma speed_close:
  assumes "t0 < now" and "pv < c"
  shows "\<bar>Math_max 0 (fl (fl (c - pv) / fl (fl (of_int now - of_int t0) / 1000)))
           - (c - pv) / ((of_int now - of_int t0) / 1000)\<bar>
         \<le> ((c - pv) / ((of_int now - of_int t0) / 1000)) / 2 ^ 50"
proof -
  have A: "0 < c - pv" using assms(2) by simp
  have D: "0 < (of_int now - of_int t0 :: rat)" using assms(1) by simp
  have "0 < fl (fl (c - pv) / fl (fl (of_int now - of_int t0) / 1000))"
    by (intro fl_pos divide_pos_pos) (use A D in simp_all)
  then have "Math_max 0 (fl (fl (c - pv) / fl (fl (of_int now - of_int t0) / 1000)))
      = fl (fl (c - pv) / fl (fl (of_int now - of_int t0) / 1000))"
    by (simp add: Math_max_def)
  then show ?thesis using quotient_close [OF A D] by simp
qed


text \<open>
  For a name that is a key of the previous and of the current snapshot, with a previous
  poll at a non-zero time \<open>t0\<close> earlier than \<open>now\<close>: the entry written holds, for each
  direction, the double-precision value of \<open>max 0 ((curr - prev) / ((now - t0) / 1000))\<close>
  on the counters as the snapshots hold them. It is never negative, it is 0 when the
  counter has not grown, and otherwise it is within a relative error of \<open>2^-50\<close> of the
  exact quotient.
\<close>

lemma traffic_rate_formula:
  assumes "prevTimeRef st = Some t0" and "t0 \<noteq> 0" and "t0 < now"
    and "own (prevRef st) nm = Some p" and "own (mkNewData ifaces) nm = Some n"
  shows "rates (fetchTraffic st (Inr ifaces) now) nm =
      Some \<lparr>txBps = Num (Math_max 0 (fl (fl (tx n - tx p) / fl (fl (of_int now - of_int t0) / 1000)))),
            rxBps = Num (Math_max 0 (fl (fl (rx n - rx p) / fl (fl (of_int now - of_int t0) / 1000)))),
            r_running = s_running n\<rparr>"
  using rates_present [OF assms]
  by (simp add: mkRate_def prop_tx_def prop_rx_def rate_of_sample)

lemma one_poll_apart:
  "jdiv (jsub (of_int T0 + 1000) (of_int T0)) 1000 = 1"
  "jdiv (jsub (of_int T0 + 2000) (of_int T0)) 1000 = 2"
  "jdiv (jsub (of_int T0 + 3000) (of_int T0)) 1000 = 3"
  by code_simp+

lemma later_polls:
  "0 < jsub (of_int T0 + 1000) (of_int T0)"
  "0 < jsub (of_int T0 + 2000) (of_int T0)" "0 < jsub (of_int T0 + 3000) (of_int T0)"
  "\<not> 0 < jsub (of_int T0) (of_int T0)"
  by (simp_all add: jsub_def fl_pos_iff)

lemma example_quotients:
  "jdiv (jsub 2000 1000) 1 = 1000" "jdiv (jsub 7500 7000) 1 = 500"
  "jdiv (jsub 2000 1000) 2 = 500" "jdiv (jsub 7500 7000) 2 = 250"
  "jdiv (jsub 500 1000) 2 = - 250" "jdiv (jsub 9500 7000) 2 = 1250"
  "jdiv (jsub 4000 1000) 3 = 1000" "jdiv (jsub 7000 7000) 3 = 0"
  by code_simp+

lemma T0_nonzero: "T0 \<noteq> 0"
  by (simp add: T0_def)

lemmas poll_defs = fetchTraffic_def mkNewRates_def mkNewData_def assign_def empty_object_def
  traffic_init_def get_sample_def truthy_def mkRate_def prop_tx_def prop_rx_def rate_of_def
  Number_of_int_exact later_polls one_poll_apart example_quotients Math_max_def Let_def
  traffic_row_def get_rate_def object_prototype_get_def object_prototype_names_def

lemma example_rates:
  "rates (fetchTraffic (fetchTraffic traffic_init (Inr poll_a) T0) (Inr poll_b) (T0 + 1000)) ''ether1''
     = Some \<lparr>txBps = Num 1000, rxBps = Num 500, r_running = True\<rparr>"
  "rates (fetchTraffic (fetchTraffic traffic_init (Inr poll_a) T0) (Inr poll_b) (T0 + 2000)) ''ether1''
     = Some \<lparr>txBps = Num 500, rxBps = Num 250, r_running = True\<rparr>"
  "rates (fetchTraffic (fetchTraffic traffic_init (Inr poll_a) T0) (Inr poll_c) (T0 + 2000)) ''ether1''
     = Some \<lparr>txBps = Num 0, rxBps = Num 1250, r_running = True\<rparr>"
  "rates (fetchTraffic (fetchTraffic traffic_init (Inr poll_a) T0) (Inr poll_d) (T0 + 3000)) ''ether1''
     = Some \<lparr>txBps = Num 1000, rxBps = Num 0, r_running = True\<rparr>"
  by (simp_all add: poll_defs poll_a_def poll_b_def poll_c_def poll_d_def T0_nonzero)

text \<open>
  Claim C1 says that every interface present in the previous and in the current snapshot
  gets its rates once \<open>dt > 0\<close>. The engine departs from it for an interface named
  \<open>__proto__\<close>: the assignment \<open>newData["__proto__"] = ...\<close> replaces the prototype of the
  snapshot object instead of adding a key, so the interface, present in both replies two
  seconds apart with its counter grown from 1000 to 2000, is not a key of \<open>traffic\<close>, gets
  no rate entry and has no row, while \<open>ether1\<close> with the same counters gets 500 and 250.
\<close>

theorem proto_interface_no_rate:
  "map name poll_p1 = [''ether1'', ''__proto__''] \<and> map name poll_p2 = [''ether1'', ''__proto__'']
   \<and> own (traffic (fetchTraffic (fetchTraffic traffic_init (Inr poll_p1) T0) (Inr poll_p2) (T0 + 2000)))
        ''__proto__'' = None
   \<and> rates (fetchTraffic (fetchTraffic traffic_init (Inr poll_p1) T0) (Inr poll_p2) (T0 + 2000))
        ''__proto__'' = None
   \<and> traffic_row (fetchTraffic (fetchTraffic traffic_init (Inr poll_p1) T0) (Inr poll_p2) (T0 + 2000))
        ''__proto__'' = None
   \<and> rates (fetchTraffic (fetchTraffic traffic_init (Inr poll_p1) T0) (Inr poll_p2) (T0 + 2000))
        ''ether1'' = Some \<lparr>txBps = Num 500, rxBps = Num 250, r_running = True\<rparr>"
  by (simp add: poll_defs poll_p1_def poll_p2_def T0_nonzero)


text \<open>
  Claim C9, as amended. Take an interface of the current snapshot, stored under a name
  that the previous snapshot object does not inherit from its prototype chain, and that
  has no previous sample (no poll was made yet, or the previous snapshot does not contain
  it). On this poll it gets no rate entry and its row shows "Calculando...". A failed poll
  afterwards changes nothing. When the next successful poll contains the interface, its
  rates are reported if this poll was made at a non-zero time and the next one is later;
  if the next one is not later, there is again no rate entry and the row still shows
  "Calculando...".
\<close>

theorem new_interface_calculating:
  assumes "own (mkNewData ifaces) nm = Some n"
    and "prevTimeRef st = None \<or> own (prevRef st) nm = None"
    and "nm \<notin> set (inherited (prevRef st))"
  shows "rates (fetchTraffic st (Inr ifaces) now) nm = None
    \<and> traffic_row (fetchTraffic st (Inr ifaces) now) nm = Some Calculando
    \<and> fetchTraffic (fetchTraffic st (Inr ifaces) now) (Inl err) later
         = fetchTraffic st (Inr ifaces) now
    \<and> (own (mkNewData ifaces') nm = Some n' \<longrightarrow>
         (now \<noteq> 0 \<and> now < later \<longrightarrow>
            rates (fetchTraffic (fetchTraffic st (Inr ifaces) now) (Inr ifaces') later) nm
              = Some \<lparr>txBps = Num (Math_max 0
                         (fl (fl (tx n' - tx n) / fl (fl (of_int later - of_int now) / 1000)))),
                      rxBps = Num (Math_max 0
                         (fl (fl (rx n' - rx n) / fl (fl (of_int later - of_int now) / 1000)))),
                      r_running = s_running n'\<rparr>
            \<and> traffic_row (fetchTraffic (fetchTraffic st (Inr ifaces) now) (Inr ifaces') later) nm
              = Some (ShowRates
                  (Some (Num (Math_max 0
                     (fl (fl (tx n' - tx n) / fl (fl (of_int later - of_int now) / 1000))))))
                  (Some (Num (Math_max 0
                     (fl (fl (rx n' - rx n) / fl (fl (of_int later - of_int now) / 1000))))))))
         \<and> (now = 0 \<or> later \<le> now \<longrightarrow>
            rates (fetchTraffic (fetchTraffic st (Inr ifaces) now) (Inr ifaces') later) nm = None
            \<and> traffic_row (fetchTraffic (fetchTraffic st (Inr ifaces) now) (Inr ifaces') later) nm
              = Some Calculando))"
proof -
  let ?s1 = "fetchTraffic st (Inr ifaces) now"
  let ?s2 = "fetchTraffic ?s1 (Inr ifaces') later"
  have np: "nm \<notin> set object_prototype_names"
    using assms(3) by (rule not_inherited_not_prototype)
  have r0: "rates ?s1 nm = None"
    using assms(2,3) by (rule rates_absent)
  have t1: "own (traffic ?s1) nm = Some n"
    using assms(1) by (simp add: poll_state)
  have c: "traffic_row ?s1 nm = Some Calculando"
    using t1 r0 np by (rule row_calculando)
  have f: "fetchTraffic ?s1 (Inl err) later = ?s1"
    by (rule failed_poll)
  have p: "prevTimeRef ?s1 = Some now" and q: "own (prevRef ?s1) nm = Some n"
    using assms(1) by (simp_all add: poll_state)
  have nxt: "rates ?s2 nm
              = Some \<lparr>txBps = Num (Math_max 0
                         (fl (fl (tx n' - tx n) / fl (fl (of_int later - of_int now) / 1000)))),
                      rxBps = Num (Math_max 0
                         (fl (fl (rx n' - rx n) / fl (fl (of_int later - of_int now) / 1000)))),
                      r_running = s_running n'\<rparr>
            \<and> traffic_row ?s2 nm
              = Some (ShowRates
                  (Some (Num (Math_max 0
                     (fl (fl (tx n' - tx n) / fl (fl (of_int later - of_int now) / 1000))))))
                  (Some (Num (Math_max 0
                     (fl (fl (rx n' - rx n) / fl (fl (of_int later - of_int now) / 1000)))))))"
    if h: "own (mkNewData ifaces') nm = Some n'" "now \<noteq> 0" "now < later"
  proof -
    note r = traffic_rate_formula [OF p h(2,3) q h(1)]
    have t: "own (traffic ?s2) nm = Some n'"
      using h(1) by (simp add: poll_state)
    from row_rates [OF t r] r show ?thesis by simp
  qed
  have same: "rates ?s2 nm = None \<and> traffic_row ?s2 nm = Some Calculando"
    if h: "own (mkNewData ifaces') nm = Some n'" "now = 0 \<or> later \<le> now"
  proof -
    have r: "rates ?s2 nm = None"
      using rates_not_later [OF p h(2)] by simp
    have t: "own (traffic ?s2) nm = Some n'"
      using h(1) by (simp add: poll_state)
    from row_calculando [OF t r np] r show ?thesis by simp
  qed
  show ?thesis
  proof (intro conjI impI)
    show "rates ?s1 nm = None" by (rule r0)
    show "traffic_row ?s1 nm = Some Calculando" by (rule c)
    show "fetchTraffic ?s1 (Inl err) later = ?s1" by (rule f)
  next
    assume h: "own (mkNewData ifaces') nm = Some n'" "now \<noteq> 0 \<and> now < later"
    from nxt [OF h(1)] h(2) show "rates ?s2 nm
              = Some \<lparr>txBps = Num (Math_max 0
                         (fl (fl (tx n' - tx n) / fl (fl (of_int later - of_int now) / 1000)))),
                      rxBps = Num (Math_max 0
                         (fl (fl (rx n' - rx n) / fl (fl (of_int later - of_int now) / 1000)))),
                      r_running = s_running n'\<rparr>"
      by simp
    from nxt [OF h(1)] h(2) show "traffic_row ?s2 nm
              = Some (ShowRates
                  (Some (Num (Math_max 0
                     (fl (fl (tx n' - tx n) / fl (fl (of_int later - of_int now) / 1000))))))
                  (Some (Num (Math_max 0
                     (fl (fl (rx n' - rx n) / fl (fl (of_int later - of_int now) / 1000)))))))"
      by simp
  next
    assume h: "own (mkNewData ifaces') nm = Some n'" "now = 0 \<or> later \<le> now"
    from same [OF h] show "rates ?s2 nm = None" by simp
    from same [OF h] show "traffic_row ?s2 nm = Some Calculando" by simp
  qed
qed

lemma plain_names:
  "''ether1'' \<notin> set (inherited (prevRef traffic_init))"
  "''ether2'' \<notin> set (inherited (prevRef (fetchTraffic traffic_init (Inr poll_a) T0)))"
  by (simp_all add: inherited_def object_prototype_names_def poll_defs poll_a_def)

lemma example_samples:
  "own (mkNewData poll_a) ''ether1'' = Some \<lparr>tx = 1000, rx = 7000, s_running = True\<rparr>"
  "own (mkNewData poll_b) ''ether1'' = Some \<lparr>tx = 2000, rx = 7500, s_running = True\<rparr>"
  "own (mkNewData poll_b) ''ether2'' = Some \<lparr>tx = 10, rx = 20, s_running = False\<rparr>"
  "own (mkNewData poll_k) ''constructor'' = Some \<lparr>tx = 1000, rx = 7000, s_running = True\<rparr>"
  by (simp_all add: poll_defs poll_a_def poll_b_def poll_k_def)

lemma example_speeds:
  "Math_max 0 (fl (fl (2000 - 1000) / fl (fl (of_int (T0 + 2000) - of_int T0) / 1000))) = 500"
  "Math_max 0 (fl (fl (7500 - 7000) / fl (fl (of_int (T0 + 2000) - of_int T0) / 1000))) = 250"
  by code_simp+

theorem new_interface_calculating_witness:
  "own (mkNewData poll_a) ''ether1'' = Some \<lparr>tx = 1000, rx = 7000, s_running = True\<rparr>
   \<and> prevTimeRef traffic_init = None
   \<and> ''ether1'' \<notin> set (inherited (prevRef traffic_init))
   \<and> traffic_row (fetchTraffic traffic_init (Inr poll_a) T0) ''ether1'' = Some Calculando
   \<and> own (mkNewData poll_b) ''ether1'' = Some \<lparr>tx = 2000, rx = 7500, s_running = True\<rparr>
   \<and> T0 \<noteq> 0 \<and> T0 < T0 + 2000
   \<and> traffic_row (fetchTraffic (fetchTraffic traffic_init (Inr poll_a) T0) (Inr poll_b) (T0 + 2000))
        ''ether1'' = Some (ShowRates (Some (Num 500)) (Some (Num 250)))
   \<and> own (mkNewData poll_b) ''ether2'' = Some \<lparr>tx = 10, rx = 20, s_running = False\<rparr>
   \<and> own (prevRef (fetchTraffic traffic_init (Inr poll_a) T0)) ''ether2'' = None
   \<and> ''ether2'' \<notin> set (inherited (prevRef (fetchTraffic traffic_init (Inr poll_a) T0)))
   \<and> traffic_row (fetchTraffic (fetchTraffic traffic_init (Inr poll_a) T0) (Inr poll_b) (T0 + 2000))
        ''ether2'' = Some Calculando
   \<and> traffic_row (fetchTraffic (fetchTraffic traffic_init (Inr poll_a) T0) (Inr poll_b) T0)
        ''ether1'' = Some Calculando"
proof -
  have i: "prevTimeRef traffic_init = None"
    by (simp add: traffic_init_def)
  have p2: "own (prevRef (fetchTraffic traffic_init (Inr poll_a) T0)) ''ether2'' = None"
    by (simp add: poll_defs poll_a_def)
  have l: "T0 < T0 + 2000" by simp
  note first = new_interface_calculating [OF example_samples(1) disjI1 [OF i] plain_names(1),
      where now = T0 and later = "T0 + 2000" and ifaces' = poll_b
        and n' = "\<lparr>tx = 2000, rx = 7500, s_running = True\<rparr>"]
  note second = new_interface_calculating [OF example_samples(3) disjI2 [OF p2] plain_names(2),
      where now = "T0 + 2000"]
  have r1: "traffic_row (fetchTraffic traffic_init (Inr poll_a) T0) ''ether1'' = Some Calculando"
    using first by blast
  have "traffic_row (fetchTraffic (fetchTraffic traffic_init (Inr poll_a) T0) (Inr poll_b) (T0 + 2000))
        ''ether1''
      = Some (ShowRates
          (Some (Num (Math_max 0
             (fl (fl (2000 - 1000) / fl (fl (of_int (T0 + 2000) - of_int T0) / 1000))))))
          (Some (Num (Math_max 0
             (fl (fl (7500 - 7000) / fl (fl (of_int (T0 + 2000) - of_int T0) / 1000)))))))"
    using first example_samples(2) T0_nonzero l by simp
  then have r2: "traffic_row (fetchTraffic (fetchTraffic traffic_init (Inr poll_a) T0) (Inr poll_b) (T0 + 2000))
        ''ether1'' = Some (ShowRates (Some (Num 500)) (Some (Num 250)))"
    unfolding example_speeds .
  have r3: "traffic_row (fetchTraffic (fetchTraffic traffic_init (Inr poll_a) T0) (Inr poll_b) (T0 + 2000))
        ''ether2'' = Some Calculando"
    using second by blast
  note third = new_interface_calculating [OF example_samples(1) disjI1 [OF i] plain_names(1),
      where now = T0 and later = T0 and ifaces' = poll_b
        and n' = "\<lparr>tx = 2000, rx = 7500, s_running = True\<rparr>"]
  have r4: "traffic_row (fetchTraffic (fetchTraffic traffic_init (Inr poll_a) T0) (Inr poll_b) T0)
        ''ether1'' = Some Calculando"
    using third example_samples(2) by simp
  from example_samples(1,2,3) i plain_names r1 T0_nonzero l r2 p2 r3 r4 show ?thesis by simp
qed

text \<open>The claim as stated fails. With \<open>ether1\<close> in both snapshots but the second poll
  made within the same millisecond, no rate is reported and the row still shows
  "Calculando...". And on a first poll, an interface named \<open>constructor\<close> is not shown as
  calculating: its row shows the rates of a value that has none.\<close>

theorem same_time_no_rate:
  "own (mkNewData poll_a) ''ether1'' = Some \<lparr>tx = 1000, rx = 7000, s_running = True\<rparr>
   \<and> own (mkNewData poll_b) ''ether1'' = Some \<lparr>tx = 2000, rx = 7500, s_running = True\<rparr>
   \<and> rates (fetchTraffic (fetchTraffic traffic_init (Inr poll_a) T0) (Inr poll_b) T0) ''ether1'' = None
   \<and> traffic_row (fetchTraffic (fetchTraffic traffic_init (Inr poll_a) T0) (Inr poll_b) T0) ''ether1''
        = Some Calculando
   \<and> own (mkNewData poll_k) ''constructor'' = Some \<lparr>tx = 1000, rx = 7000, s_running = True\<rparr>
   \<and> traffic_row (fetchTraffic traffic_init (Inr poll_k) T0) ''constructor''
        = Some (ShowRates None None)"
  by (simp add: poll_defs poll_a_def poll_b_def poll_k_def T0_nonzero)


section \<open>The ordering of the cascade\<close>

text \<open>A change of the cell, of the zone or of the NAP to another one clears the fields
  of the form below it, whatever the requests return.\<close>

lemma cell_change_clears:
  assumes "Some c \<noteq> cell_id (form st)"
  shows "plan_id (form (select_cell (Some c) r st)) = None
    \<and> olt_zone_id (form (select_cell (Some c) r st)) = None
    \<and> nap_id (form (select_cell (Some c) r st)) = None
    \<and> nap_port_id (form (select_cell (Some c) r st)) = None
    \<and> onu_id (form (select_cell (Some c) r st)) = None
    \<and> cpe_id (form (select_cell (Some c) r st)) = None"
  using assms
  by (simp add: select_cell_def cell_effect_def loadCellData_def handleChange_def zone_effect_def
      nap_effect_def toast_error_def Let_def split: sum.splits)

lemma zone_change_clears:
  assumes "Some z \<noteq> olt_zone_id (form st)"
  shows "nap_id (form (select_zone (Some z) res st)) = None
    \<and> nap_port_id (form (select_zone (Some z) res st)) = None"
  using assms
  by (simp add: select_zone_def zone_effect_def handleChange_def nap_effect_def toast_error_def
      Let_def split: sum.splits)

lemma nap_change_clears:
  assumes "Some n \<noteq> nap_id (form st)"
  shows "nap_port_id (form (select_nap (Some n) res st)) = None"
  using assms
  by (simp add: select_nap_def handleChange_def nap_effect_def toast_error_def
      Let_def split: sum.splits)

text \<open>The lists of options are another matter: the effects of the zone and of the NAP
  replace \<open>naps\<close> and \<open>ports\<close> only when the reply arrives, and leave them as they were
  when the request fails.\<close>

lemma failed_ports_request_keeps_ports:
  "ports (select_nap (Some n) (Inl err) st) = ports st"
  by (simp add: select_nap_def handleChange_def nap_effect_def toast_error_def)

lemma failed_naps_request_keeps_naps:
  "naps (select_zone (Some z) (Inl err) st) = naps st"
  by (simp add: select_zone_def zone_effect_def handleChange_def nap_effect_def toast_error_def
      Let_def)

text \<open>
  Claim C5 says that, since a change upstream clears what lies downstream, a submitted
  draft's zone, NAP and port always belong to the selected ancestors. The run above
  departs from it. With NAP 7 selected the free ports of NAP 7 are offered. After the
  operator changes to NAP 8 and the ports request fails, the port select is enabled and
  still offers the ports of NAP 7; port 101 can be chosen, and the submission posts a
  connection on NAP 8 with port 101 of NAP 7.
\<close>

theorem cascade_stale_port:
  "port_options at_nap7 = [101, 103, 104, 106, 108]
   \<and> nap_id (form at_nap8) = Some 8 \<and> nap_port_id (form at_nap8) = None
   \<and> m_toasts at_nap8 = [ToastError ''Error al cargar puertos'']
   \<and> port_enabled at_nap8 \<and> port_options at_nap8 = [101, 103, 104, 106, 108]
   \<and> handleSubmit stale_draft (Inr ()) =
       [PostFiber \<lparr>fb_client_id = 5, fb_cell_id = 1, fb_plan_id = 3, fb_olt_zone_id = 1,
          fb_nap_id = 8, fb_nap_port_id = 101, fb_ip_address = ''10.0.0.5'',
          fb_pppoe_profile = ''default-encryption'', fb_pppoe_username = ''jperez.fibra'',
          fb_pppoe_password_encrypted = ''secreto'', fb_onu_id = 40, fb_mode = ''router''\<rparr>,
        Toast (ToastSuccess ''Conexion FIBRA creada''), OnSaved]"
proof -
  have a: "port_options at_nap7 = [101, 103, 104, 106, 108]"
    by (simp add: run_defs port_options_def)
  have b: "nap_id (form at_nap8) = Some 8 \<and> nap_port_id (form at_nap8) = None
      \<and> m_toasts at_nap8 = [ToastError ''Error al cargar puertos'']
      \<and> port_enabled at_nap8 \<and> port_options at_nap8 = [101, 103, 104, 106, 108]"
    by (simp add: run_defs port_options_def port_enabled_def)
  have c: "handleSubmit stale_draft (Inr ()) =
       [PostFiber \<lparr>fb_client_id = 5, fb_cell_id = 1, fb_plan_id = 3, fb_olt_zone_id = 1,
          fb_nap_id = 8, fb_nap_port_id = 101, fb_ip_address = ''10.0.0.5'',
          fb_pppoe_profile = ''default-encryption'', fb_pppoe_username = ''jperez.fibra'',
          fb_pppoe_password_encrypted = ''secreto'', fb_onu_id = 40, fb_mode = ''router''\<rparr>,
        Toast (ToastSuccess ''Conexion FIBRA creada''), OnSaved]"
    by (simp add: run_defs handleSubmit_def isFibra_def after_post_def)
  from a b c show ?thesis by simp
qed

end
